theory Spec2Isabelle
  imports Complex_Main
begin

section \<open>Numbers\<close>

text \<open>
  The notebook computes with NumPy floating-point arrays. Rounding is not modelled: a
  finite array element is a real number, \<open>Val x\<close>. What is modelled is the place where
  floating-point arithmetic leaves the finite numbers without raising: a division by zero,
  the logarithm of a number that is not positive, a fractional power of a negative number.
  NumPy returns NaN or an infinity there and goes on; the model returns \<open>Undef\<close>, and every
  operation on \<open>Undef\<close> is \<open>Undef\<close> again. So \<open>Val x\<close> says that no such operation took
  part in the computation of the element, and \<open>Undef\<close> that one did. (A NaN stays a NaN in
  every arithmetic operation; an infinity can come back to a number only as a divisor,
  which the model does not follow.)
\<close>

datatype fval = Val real | Undef

instantiation fval :: "{comm_monoid_add, comm_monoid_mult, uminus, minus, inverse}"
begin

definition zero_fval :: fval where
  "zero_fval = Val 0"

definition one_fval :: fval where
  "one_fval = Val 1"

fun plus_fval :: "fval \<Rightarrow> fval \<Rightarrow> fval" where
  "plus_fval (Val x) (Val y) = Val (x + y)"
| "plus_fval _ _ = Undef"

fun times_fval :: "fval \<Rightarrow> fval \<Rightarrow> fval" where
  "times_fval (Val x) (Val y) = Val (x * y)"
| "times_fval _ _ = Undef"

fun uminus_fval :: "fval \<Rightarrow> fval" where
  "uminus_fval (Val x) = Val (- x)"
| "uminus_fval Undef = Undef"

fun minus_fval :: "fval \<Rightarrow> fval \<Rightarrow> fval" where
  "minus_fval (Val x) (Val y) = Val (x - y)"
| "minus_fval _ _ = Undef"

fun divide_fval :: "fval \<Rightarrow> fval \<Rightarrow> fval" where
  "divide_fval (Val x) (Val y) = (if y = 0 then Undef else Val (x / y))"
| "divide_fval _ _ = Undef"

fun inverse_fval :: "fval \<Rightarrow> fval" where
  "inverse_fval (Val x) = (if x = 0 then Undef else Val (inverse x))"
| "inverse_fval Undef = Undef"

instance
proof
  fix u v w :: fval
  show "u * v = v * u"
    by (cases u; cases v; simp)
  show "u + v = v + u"
    by (cases u; cases v; simp)
  show "(u * v) * w = u * (v * w)"
    by (cases u; cases v; cases w; simp)
  show "(u + v) + w = u + (v + w)"
    by (cases u; cases v; cases w; simp)
  show "1 * u = u"
    unfolding one_fval_def by (cases u; simp)
  show "0 + u = u"
    unfolding zero_fval_def by (cases u; simp)
qed

end

text \<open>\<open>==\<close> on array elements: a NaN is equal to nothing, itself included.\<close>

fun feq :: "fval \<Rightarrow> fval \<Rightarrow> bool" where
  "feq (Val x) (Val y) = (x = y)"
| "feq _ _ = False"

text \<open>\<open>np.log\<close>, \<open>np.exp\<close>, \<open>np.cos\<close>, \<open>np.sin\<close> and \<open>** y\<close> on one element.\<close>

fun flog :: "fval \<Rightarrow> fval" where
  "flog (Val x) = (if 0 < x then Val (ln x) else Undef)"
| "flog Undef = Undef"

fun fexp :: "fval \<Rightarrow> fval" where
  "fexp (Val x) = Val (exp x)"
| "fexp Undef = Undef"

fun fcos :: "fval \<Rightarrow> fval" where
  "fcos (Val x) = Val (cos x)"
| "fcos Undef = Undef"

fun fsin :: "fval \<Rightarrow> fval" where
  "fsin (Val x) = Val (sin x)"
| "fsin Undef = Undef"

fun fpow :: "fval \<Rightarrow> real \<Rightarrow> fval" where
  "fpow (Val x) y = (if 0 \<le> x then Val (x powr y) else Undef)"
| "fpow Undef y = Undef"

section \<open>Array operations of the libraries\<close>

text \<open>
  All arrays of the notebook are variables of the one dataset that \<open>open_mfdataset\<close>
  returns, so they share its grid: an array over (time, z, latitude, longitude) is a
  function of the four positions on that grid, and a coordinate is the list of its labels.
\<close>

type_synonym field4 = "nat \<Rightarrow> nat \<Rightarrow> nat \<Rightarrow> nat \<Rightarrow> fval"
type_synonym field3 = "nat \<Rightarrow> nat \<Rightarrow> nat \<Rightarrow> fval"

text \<open>
  \<open>.mean('longitude')\<close> of one row of \<open>n\<close> longitudes; the mean of a row without
  elements is \<open>0 / 0\<close>. xarray leaves NaN elements out of a mean and keeps infinities;
  \<open>Undef\<close> stands for both, and the mean of a row that holds one is \<open>Undef\<close>.
\<close>

definition mean_lon :: "nat \<Rightarrow> (nat \<Rightarrow> fval) \<Rightarrow> fval" where
  "mean_lon n f = sum_list (map f [0..<n]) / Val (real n)"

text \<open>
  \<open>.differentiate(coord)\<close> is \<open>numpy.gradient\<close> along that axis with the coordinate's
  labels \<open>xs\<close> and \<open>edge_order = 1\<close>: one-sided differences at both ends, and inside
  the second-order central difference, in its short form when all the spacings are equal.
  \<open>numpy.gradient\<close> raises ValueError for fewer than two points; \<open>process\<close> below
  has that check, and \<open>gradient\<close> is the result on an axis of at least two points, at a
  position \<open>k\<close> of the axis. numpy compares the spacings as doubles, the model as real
  numbers; where the two comparisons differ, numpy takes the other of the two formulas
  inside the axis. On a field of numbers both have the same value on evenly spaced points
  (\<open>gradient_Val\<close> below); they differ where the element at \<open>k\<close> is undefined, and the
  theorems on undefined elements hold for both.
\<close>

definition diffx :: "fval list \<Rightarrow> nat \<Rightarrow> fval" where
  "diffx xs i = xs ! (i + 1) - xs ! i"

definition uniform_spacing :: "fval list \<Rightarrow> bool" where
  "uniform_spacing xs = list_all (\<lambda>i. feq (diffx xs i) (diffx xs 0)) [0..<length xs - 1]"

definition gradient :: "fval list \<Rightarrow> (nat \<Rightarrow> fval) \<Rightarrow> nat \<Rightarrow> fval" where
  "gradient xs f k =
    (let n = length xs in
     if k = 0 then (f 1 - f 0) / diffx xs 0
     else if k = n - 1 then
       (f (n - 1) - f (n - 2)) / (if uniform_spacing xs then diffx xs 0 else diffx xs (n - 2))
     else if uniform_spacing xs then (f (k + 1) - f (k - 1)) / (Val 2 * diffx xs 0)
     else
       (let dx1 = diffx xs (k - 1); dx2 = diffx xs k;
            a = - dx2 / (dx1 * (dx1 + dx2));
            b = (dx2 - dx1) / (dx1 * dx2);
            c = dx1 / (dx2 * (dx1 + dx2))
        in a * f (k - 1) + b * f k + c * f (k + 1)))"

text \<open>
  The derivative at position \<open>k\<close> reads the field at \<open>k\<close> itself at both ends of the
  axis, and everywhere on an axis whose spacings are not all equal.
\<close>

definition uses_centre :: "fval list \<Rightarrow> nat \<Rightarrow> bool" where
  "uses_centre xs k = (k = 0 \<or> k = length xs - 1 \<or> \<not> uniform_spacing xs)"

section \<open>Input Adapter\<close>

datatype error = IndexError | ValueError | OSError













section \<open>Coordinate Normalizer\<close>

text \<open>
  The dataset as \<open>open_mfdataset\<close> and \<open>rename\<close> leave it: the number of time steps,
  the labels of level (hPa), latitude (degrees) and longitude, and the five variables.
\<close>

record raw_dataset =
  raw_time :: nat
  raw_level :: "real list"
  raw_latitude :: "real list"
  raw_longitude :: "real list"
  raw_u :: field4
  raw_v :: field4
  raw_w :: field4
  raw_T :: field4
  raw_Phi :: field4

text \<open>
  The dataset and the variables of the notebook after the cell that normalises the
  coordinates: \<open>ds_z\<close> is the log-pressure height, \<open>ds_latitude\<close> is in radians,
  \<open>ds_p\<close> (Pa) and \<open>ds_rho\<close> are the two variables the cell adds, \<open>p_surf\<close> is the
  notebook's variable of that name.
\<close>

record dataset =
  ds_time :: nat
  ds_z :: "fval list"
  ds_latitude :: "real list"
  ds_longitude :: "real list"
  ds_u :: field4
  ds_v :: field4
  ds_w :: field4
  ds_T :: field4
  ds_Phi :: field4
  ds_p :: "real list"
  ds_rho :: "fval list"
  p_surf :: real

definition H :: real where
  "H = 6800"

text \<open>
  \<open>np.pi\<close> is the double nearest to \<open>\<pi>\<close>, a little below it. Rounding is not modelled,
  but the constant is the number the notebook has: the latitude of a pole in radians is
  \<open>np_pi / 2\<close>, where the cosine is small and not zero.
\<close>

definition np_pi :: real where
  "np_pi = 884279719003555 / 281474976710656"

text \<open>\<open>p[-1]\<close>: the last element, IndexError on an array without elements.\<close>

definition p_last :: "real list \<Rightarrow> error + real" where
  "p_last p = (if p = [] then Inl IndexError else Inr (last p))"

definition normalize :: "raw_dataset \<Rightarrow> error + dataset" where
  "normalize raw =
    (let p = map (\<lambda>l. 100 * l) (raw_level raw);
         lat = map (\<lambda>x. np_pi * x / 180) (raw_latitude raw)
     in case p_last p of
          Inl e \<Rightarrow> Inl e
        | Inr ps \<Rightarrow>
            (let z = map (\<lambda>q. Val (- H) * flog (Val q / Val ps)) p;
                 rho = map (\<lambda>y. fexp (- y / Val H)) z
             in Inr \<lparr>ds_time = raw_time raw, ds_z = z, ds_latitude = lat,
                      ds_longitude = raw_longitude raw,
                      ds_u = raw_u raw, ds_v = raw_v raw, ds_w = raw_w raw,
                      ds_T = raw_T raw, ds_Phi = raw_Phi raw,
                      ds_p = p, ds_rho = rho, p_surf = ps\<rparr>))"

definition nlon :: "dataset \<Rightarrow> nat" where
  "nlon d = length (ds_longitude d)"

definition nlev :: "dataset \<Rightarrow> nat" where
  "nlev d = length (ds_z d)"

definition nlat :: "dataset \<Rightarrow> nat" where
  "nlat d = length (ds_latitude d)"

text \<open>The coordinate labels that \<open>differentiate\<close> reads, and \<open>rho\<close> at a level.\<close>

definition lat_coord :: "dataset \<Rightarrow> fval list" where
  "lat_coord d = map Val (ds_latitude d)"

definition rho :: "dataset \<Rightarrow> nat \<Rightarrow> fval" where
  "rho d k = ds_rho d ! k"

section \<open>Vertical-Velocity Converter\<close>

text \<open>
  The notebook's \<open>h\<close>, \<open>dzdh\<close> and \<open>w\<close>; \<open>w_cartesian\<close> is \<open>ds_w\<close>. The names
  \<open>h_geo\<close> and \<open>w_logp\<close> stand for the one-letter \<open>h\<close> and \<open>w\<close>.
\<close>

definition h_geo :: "dataset \<Rightarrow> field4" where
  "h_geo d t k j i = ds_Phi d t k j i / Val 9.8"

definition dzdh :: "dataset \<Rightarrow> field4" where
  "dzdh d t k j i = Val 1 / gradient (ds_z d) (\<lambda>k'. h_geo d t k' j i) k"

definition w_logp :: "dataset \<Rightarrow> field4" where
  "w_logp d t k j i = dzdh d t k j i * ds_w d t k j i"

section \<open>Potential temperature and stability\<close>

definition theta :: "dataset \<Rightarrow> field4" where
  "theta d t k j i = ds_T d t k j i * fpow (Val (p_surf d) / Val (ds_p d ! k)) 0.286"

definition theta_bar :: "dataset \<Rightarrow> field3" where
  "theta_bar d t k j = mean_lon (nlon d) (theta d t k j)"

definition N2 :: "dataset \<Rightarrow> field3" where
  "N2 d t k j = gradient (ds_z d) (\<lambda>k'. theta_bar d t k' j) k"

section \<open>Eddy decomposition and residual circulation\<close>

text \<open>
  The cells from here on read the variable \<open>w\<close> of the Vertical-Velocity Converter; it
  is the argument \<open>w\<close> of the definitions that use it.
\<close>

definition v_bar :: "dataset \<Rightarrow> field3" where
  "v_bar d t k j = mean_lon (nlon d) (ds_v d t k j)"

definition w_bar :: "dataset \<Rightarrow> field4 \<Rightarrow> field3" where
  "w_bar d w t k j = mean_lon (nlon d) (w t k j)"

definition v_prime :: "dataset \<Rightarrow> field4" where
  "v_prime d t k j i = ds_v d t k j i - v_bar d t k j"

definition w_prime :: "dataset \<Rightarrow> field4 \<Rightarrow> field4" where
  "w_prime d w t k j i = w t k j i - w_bar d w t k j"

definition theta_prime :: "dataset \<Rightarrow> field4" where
  "theta_prime d t k j i = theta d t k j i - theta_bar d t k j"

definition heat_flux :: "dataset \<Rightarrow> field3" where
  "heat_flux d t k j = mean_lon (nlon d) (\<lambda>i. v_prime d t k j i * theta_prime d t k j i)"

definition a_earth :: real where
  "a_earth = 6370000"

definition cos_lat :: "dataset \<Rightarrow> nat \<Rightarrow> fval" where
  "cos_lat d j = fcos (Val (ds_latitude d ! j))"

definition v_star :: "dataset \<Rightarrow> field3" where
  "v_star d t k j =
     v_bar d t k j
       - gradient (ds_z d) (\<lambda>k'. rho d k' * heat_flux d t k' j / N2 d t k' j) k / rho d k"

definition w_star :: "dataset \<Rightarrow> field4 \<Rightarrow> field3" where
  "w_star d w t k j =
     w_bar d w t k j
       + gradient (lat_coord d) (\<lambda>j'. cos_lat d j' * heat_flux d t k j' / N2 d t k j') j
           / (Val a_earth * cos_lat d j)"

section \<open>Wave flux\<close>

definition u_bar :: "dataset \<Rightarrow> field3" where
  "u_bar d t k j = mean_lon (nlon d) (ds_u d t k j)"

definition u_prime :: "dataset \<Rightarrow> field4" where
  "u_prime d t k j i = ds_u d t k j i - u_bar d t k j"

definition uv_bar :: "dataset \<Rightarrow> field3" where
  "uv_bar d t k j = mean_lon (nlon d) (\<lambda>i. u_prime d t k j i * v_prime d t k j i)"

definition uw_bar :: "dataset \<Rightarrow> field4 \<Rightarrow> field3" where
  "uw_bar d w t k j = mean_lon (nlon d) (\<lambda>i. u_prime d t k j i * w_prime d w t k j i)"

definition Omega :: real where
  "Omega = 7292 / 100000000"

definition f_cor :: "dataset \<Rightarrow> nat \<Rightarrow> fval" where
  "f_cor d j = Val 2 * Val Omega * fsin (Val (ds_latitude d ! j))"

definition offset :: "dataset \<Rightarrow> field3" where
  "offset d t k j =
     gradient (lat_coord d) (\<lambda>j'. u_bar d t k j' * cos_lat d j') j / (Val a_earth * cos_lat d j)"

definition F_lat :: "dataset \<Rightarrow> field3" where
  "F_lat d t k j =
     (gradient (ds_z d) (\<lambda>k'. u_bar d t k' j) k * heat_flux d t k j / N2 d t k j - uv_bar d t k j)
       * rho d k * cos_lat d j"

definition F_z :: "dataset \<Rightarrow> field4 \<Rightarrow> field3" where
  "F_z d w t k j =
     ((f_cor d j - offset d t k j) * heat_flux d t k j / N2 d t k j - uw_bar d w t k j)
       * rho d k * Val a_earth * cos_lat d j"

definition EPFD :: "dataset \<Rightarrow> field4 \<Rightarrow> field3" where
  "EPFD d w t k j =
     (gradient (lat_coord d) (\<lambda>j'. F_lat d t k j') j + gradient (ds_z d) (\<lambda>k'. F_z d w t k' j) k)
       / (rho d k * Val a_earth * cos_lat d j)"

section \<open>Output Assembler\<close>

record out_dataset =
  out_pressure :: "fval list"
  out_latitude :: "real list"
  out_u :: field3
  out_v :: field3
  out_w :: field3
  out_T :: field3
  out_h :: field3
  out_theta :: field3
  out_N2 :: field3
  out_heat_flux :: field3
  out_v_star :: field3
  out_w_star :: field3
  out_EPFD :: field3

text \<open>
  \<open>.mean('longitude')\<close> on the new dataset averages the variables that have a longitude
  axis and leaves the others as they are.
\<close>

definition assemble :: "dataset \<Rightarrow> field4 \<Rightarrow> out_dataset" where
  "assemble d w =
    \<lparr>out_pressure = map (\<lambda>y. Val (p_surf d) * fexp (- y / Val H) / Val 100) (ds_z d),
     out_latitude = map (\<lambda>x. 180 * x / np_pi) (ds_latitude d),
     out_u = (\<lambda>t k j. mean_lon (nlon d) (ds_u d t k j)),
     out_v = (\<lambda>t k j. mean_lon (nlon d) (ds_v d t k j)),
     out_w = (\<lambda>t k j. mean_lon (nlon d) (ds_w d t k j)),
     out_T = (\<lambda>t k j. mean_lon (nlon d) (ds_T d t k j)),
     out_h = (\<lambda>t k j. mean_lon (nlon d) (h_geo d t k j)),
     out_theta = (\<lambda>t k j. mean_lon (nlon d) (theta d t k j)),
     out_N2 = N2 d,
     out_heat_flux = heat_flux d,
     out_v_star = v_star d,
     out_w_star = w_star d w,
     out_EPFD = EPFD d w\<rparr>"

text \<open>
  The cells after the files are opened. \<open>differentiate\<close> raises ValueError on an axis
  of fewer than two points, first along \<open>z\<close>, then along latitude.
\<close>

definition process :: "raw_dataset \<Rightarrow> error + out_dataset" where
  "process raw =
    (case normalize raw of
       Inl e \<Rightarrow> Inl e
     | Inr d \<Rightarrow>
         if length (ds_z d) < 2 \<or> length (ds_latitude d) < 2 then Inl ValueError
         else Inr (assemble d (w_logp d)))"


section \<open>The formulas of the specification\<close>

text \<open>
  The specification's formulas, written over the real numbers from the inputs of the
  notebook: the zonal mean and the eddy covariance of its data model, the finite-difference
  derivative, the potential temperature and the stability, the converted vertical velocity,
  the residual circulation and the wave flux. They are compared with the notebook's fields
  below. \<open>val\<close> reads the number that an element of an input field holds.
\<close>

fun val :: "fval \<Rightarrow> real" where
  "val (Val x) = x"
| "val Undef = 0"

text \<open>The mean over longitude, and the zonal mean of the product of two eddy parts.\<close>

definition zonal_mean :: "nat \<Rightarrow> (nat \<Rightarrow> real) \<Rightarrow> real" where
  "zonal_mean n f = sum_list (map f [0..<n]) / real n"

definition eddy_cov :: "nat \<Rightarrow> (nat \<Rightarrow> real) \<Rightarrow> (nat \<Rightarrow> real) \<Rightarrow> real" where
  "eddy_cov n f g = zonal_mean n (\<lambda>i. (f i - zonal_mean n f) * (g i - zonal_mean n g))"

text \<open>
  The derivative along an axis with the points \<open>xs\<close>: one-sided at the two ends, and
  inside the centred difference of second order through the points \<open>k - 1\<close>, \<open>k\<close> and
  \<open>k + 1\<close>, which on evenly spaced points is \<open>(f (k + 1) - f (k - 1)) / (2 h)\<close>.
\<close>

definition fd_derivative :: "real list \<Rightarrow> (nat \<Rightarrow> real) \<Rightarrow> nat \<Rightarrow> real" where
  "fd_derivative xs f k =
    (let n = length xs in
     if k = 0 then (f 1 - f 0) / (xs ! 1 - xs ! 0)
     else if k = n - 1 then (f (n - 1) - f (n - 2)) / (xs ! (n - 1) - xs ! (n - 2))
     else
       (let h1 = xs ! k - xs ! (k - 1); h2 = xs ! (k + 1) - xs ! k
        in (h1 * h1 * f (k + 1) - h2 * h2 * f (k - 1) + (h2 * h2 - h1 * h1) * f k)
             / (h1 * h2 * (h1 + h2))))"

definition heights :: "dataset \<Rightarrow> real list" where
  "heights d = map val (ds_z d)"

definition spec_rho :: "dataset \<Rightarrow> nat \<Rightarrow> real" where
  "spec_rho d k = exp (- (heights d ! k) / 6800)"

definition spec_theta :: "dataset \<Rightarrow> nat \<Rightarrow> nat \<Rightarrow> nat \<Rightarrow> nat \<Rightarrow> real" where
  "spec_theta d t k j i = val (ds_T d t k j i) * (p_surf d / (ds_p d ! k)) powr 0.286"

definition spec_N2 :: "dataset \<Rightarrow> nat \<Rightarrow> nat \<Rightarrow> nat \<Rightarrow> real" where
  "spec_N2 d t k j =
     fd_derivative (heights d) (\<lambda>k'. zonal_mean (nlon d) (spec_theta d t k' j)) k"

definition spec_heat_flux :: "dataset \<Rightarrow> nat \<Rightarrow> nat \<Rightarrow> nat \<Rightarrow> real" where
  "spec_heat_flux d t k j =
     eddy_cov (nlon d) (\<lambda>i. val (ds_v d t k j i)) (spec_theta d t k j)"

text \<open>The geopotential height and the vertical velocity in log-pressure coordinates.\<close>

definition spec_h :: "dataset \<Rightarrow> nat \<Rightarrow> nat \<Rightarrow> nat \<Rightarrow> nat \<Rightarrow> real" where
  "spec_h d t k j i = val (ds_Phi d t k j i) / 9.8"

definition spec_w :: "dataset \<Rightarrow> nat \<Rightarrow> nat \<Rightarrow> nat \<Rightarrow> nat \<Rightarrow> real" where
  "spec_w d t k j i =
     1 / fd_derivative (heights d) (\<lambda>k'. spec_h d t k' j i) k * val (ds_w d t k j i)"

text \<open>The residual circulation.\<close>

definition spec_v_star :: "dataset \<Rightarrow> nat \<Rightarrow> nat \<Rightarrow> nat \<Rightarrow> real" where
  "spec_v_star d t k j =
     zonal_mean (nlon d) (\<lambda>i. val (ds_v d t k j i))
       - 1 / spec_rho d k
           * fd_derivative (heights d)
               (\<lambda>k'. spec_rho d k' * (spec_heat_flux d t k' j / spec_N2 d t k' j)) k"

definition spec_w_star :: "dataset \<Rightarrow> nat \<Rightarrow> nat \<Rightarrow> nat \<Rightarrow> real" where
  "spec_w_star d t k j =
     zonal_mean (nlon d) (spec_w d t k j)
       + 1 / (6370000 * cos (ds_latitude d ! j))
           * fd_derivative (ds_latitude d)
               (\<lambda>j'. cos (ds_latitude d ! j') * (spec_heat_flux d t k j' / spec_N2 d t k j')) j"

text \<open>The wave flux and its divergence.\<close>

definition spec_u_bar :: "dataset \<Rightarrow> nat \<Rightarrow> nat \<Rightarrow> nat \<Rightarrow> real" where
  "spec_u_bar d t k j = zonal_mean (nlon d) (\<lambda>i. val (ds_u d t k j i))"

definition spec_uv :: "dataset \<Rightarrow> nat \<Rightarrow> nat \<Rightarrow> nat \<Rightarrow> real" where
  "spec_uv d t k j =
     eddy_cov (nlon d) (\<lambda>i. val (ds_u d t k j i)) (\<lambda>i. val (ds_v d t k j i))"

definition spec_uw :: "dataset \<Rightarrow> nat \<Rightarrow> nat \<Rightarrow> nat \<Rightarrow> real" where
  "spec_uw d t k j = eddy_cov (nlon d) (\<lambda>i. val (ds_u d t k j i)) (spec_w d t k j)"

definition spec_F_lat :: "dataset \<Rightarrow> nat \<Rightarrow> nat \<Rightarrow> nat \<Rightarrow> real" where
  "spec_F_lat d t k j =
     spec_rho d k * cos (ds_latitude d ! j)
       * (fd_derivative (heights d) (\<lambda>k'. spec_u_bar d t k' j) k
            * (spec_heat_flux d t k j / spec_N2 d t k j)
          - spec_uv d t k j)"

definition spec_F_z :: "dataset \<Rightarrow> nat \<Rightarrow> nat \<Rightarrow> nat \<Rightarrow> real" where
  "spec_F_z d t k j =
     spec_rho d k * 6370000 * cos (ds_latitude d ! j)
       * ((2 * (7292 / 100000000) * sin (ds_latitude d ! j)
            - fd_derivative (ds_latitude d)
                (\<lambda>j'. spec_u_bar d t k j' * cos (ds_latitude d ! j')) j
                / (6370000 * cos (ds_latitude d ! j)))
           * (spec_heat_flux d t k j / spec_N2 d t k j)
          - spec_uw d t k j)"

definition spec_EPFD :: "dataset \<Rightarrow> nat \<Rightarrow> nat \<Rightarrow> nat \<Rightarrow> real" where
  "spec_EPFD d t k j =
     (fd_derivative (ds_latitude d) (\<lambda>j'. spec_F_lat d t k j') j
        + fd_derivative (heights d) (\<lambda>k'. spec_F_z d t k' j) k)
       / (spec_rho d k * 6370000 * cos (ds_latitude d ! j))"

text \<open>
  The inputs on which the formulas are defined at the time \<open>t\<close>: at least two distinct
  positive pressure levels, at least two distinct latitudes between the poles, at least one
  longitude, numbers in the five fields at every point of the grid, and a stability that is
  not zero. For the converted vertical velocity the geopotential height must have a
  derivative in \<open>z\<close> that is not zero.
\<close>

definition regular :: "raw_dataset \<Rightarrow> dataset \<Rightarrow> nat \<Rightarrow> bool" where
  "regular raw d t \<longleftrightarrow>
     normalize raw = Inr d
     \<and> 2 \<le> length (raw_level raw) \<and> distinct (raw_level raw)
     \<and> (\<forall>l\<in>set (raw_level raw). 0 < l)
     \<and> 2 \<le> length (raw_latitude raw) \<and> distinct (raw_latitude raw)
     \<and> (\<forall>x\<in>set (raw_latitude raw). \<bar>x\<bar> \<le> 90)
     \<and> raw_longitude raw \<noteq> []
     \<and> (\<forall>k<nlev d. \<forall>j<nlat d. \<forall>i<nlon d.
           ds_u d t k j i \<noteq> Undef \<and> ds_v d t k j i \<noteq> Undef \<and> ds_w d t k j i \<noteq> Undef
           \<and> ds_T d t k j i \<noteq> Undef \<and> ds_Phi d t k j i \<noteq> Undef)
     \<and> (\<forall>k<nlev d. \<forall>j<nlat d. spec_N2 d t k j \<noteq> 0)"

definition convertible :: "dataset \<Rightarrow> nat \<Rightarrow> bool" where
  "convertible d t \<longleftrightarrow>
     (\<forall>k<nlev d. \<forall>j<nlat d. \<forall>i<nlon d.
        fd_derivative (heights d) (\<lambda>k'. spec_h d t k' j i) k \<noteq> 0)"

section \<open>Example inputs\<close>

text \<open>
  Small datasets on which the theorems below are instantiated: one time step, two levels,
  two latitudes, two longitudes. \<open>ascending_raw\<close> stores its levels as the ERA5 files do,
  \<open>descending_raw\<close> the other way round, \<open>cold_raw\<close> has temperature zero everywhere,
  the grid of \<open>polar_raw\<close> begins at the north pole, and in \<open>unstable_raw\<close> the potential
  temperature decreases with height.
\<close>

definition ascending_raw :: raw_dataset where
  "ascending_raw =
    \<lparr>raw_time = 1, raw_level = [500, 1000], raw_latitude = [0, 30], raw_longitude = [0, 180],
     raw_u = (\<lambda>t k j i. Val (real i)), raw_v = (\<lambda>t k j i. Val 1),
     raw_w = (\<lambda>t k j i. Val (real i)), raw_T = (\<lambda>t k j i. Val (1 - real k)),
     raw_Phi = (\<lambda>t k j i. Val (98 * (1 - real k)))\<rparr>"

definition descending_raw :: raw_dataset where
  "descending_raw = ascending_raw\<lparr>raw_level := [1000, 500]\<rparr>"

definition cold_raw :: raw_dataset where
  "cold_raw = ascending_raw\<lparr>raw_T := (\<lambda>t k j i. Val 0)\<rparr>"

definition polar_raw :: raw_dataset where
  "polar_raw = ascending_raw\<lparr>raw_latitude := [90, 60]\<rparr>"

definition unstable_raw :: raw_dataset where
  "unstable_raw =
     ascending_raw\<lparr>raw_v := (\<lambda>t k j i. Val (real i)),
                    raw_T := (\<lambda>t k j i. Val (real k * (1 + real i)))\<rparr>"

definition ascending_ds :: dataset where
  "ascending_ds = projr (normalize ascending_raw)"

definition cold_ds :: dataset where
  "cold_ds = projr (normalize cold_raw)"

definition polar_ds :: dataset where
  "polar_ds = projr (normalize polar_raw)"

definition unstable_ds :: dataset where
  "unstable_ds = projr (normalize unstable_raw)"




section \<open>Arithmetic of array elements\<close>

lemma fval_zero [simp]: "(0::fval) = Val 0"
  by (simp add: zero_fval_def)

lemma fval_one [simp]: "(1::fval) = Val 1"
  by (simp add: one_fval_def)

lemma fval_Undef_right [simp]:
  "a + Undef = Undef" "a - Undef = Undef" "a * Undef = Undef" "a / Undef = Undef"
  by (cases a; simp)+

lemma fval_Undef_left [simp]:
  "Undef + a = Undef" "Undef - a = Undef" "Undef * a = Undef" "Undef / a = Undef"
  by (cases a; simp)+

lemma fval_times_divide: "a * b / c = a * (b / (c::fval))"
  by (cases a; cases b; cases c) simp_all

lemma fval_inverse_times: "Val 1 / c * b = b / (c::fval)"
  by (cases b; cases c) simp_all

lemma fval_minus_zero [simp]: "a - Val 0 = a"
  by (cases a) simp_all

lemma fval_plus_zero [simp]: "a + Val 0 = a"
  by (cases a) simp_all

lemma fval_divide_zero [simp]: "a / Val 0 = Undef"
  by (cases a) simp_all

section \<open>The constant \<open>np.pi\<close>\<close>

text \<open>
  The partial sums of the series of the arc tangent enclose its value, and Machin's formula
  bounds \<open>\<pi>\<close> from below: \<open>np_pi\<close> is less than \<open>\<pi>\<close>. So a latitude between -90 and 90
  degrees is, in radians, strictly between \<open>- \<pi> / 2\<close> and \<open>\<pi> / 2\<close>, and its cosine is
  positive, also at the two poles.
\<close>

lemma arctan_partial_sums:
  fixes x :: real
  assumes "0 < x" and "x \<le> 1"
  shows "(\<Sum>i<2 * n. (- 1) ^ i * (1 / real (i * 2 + 1) * x ^ (i * 2 + 1))) \<le> arctan x"
    and "arctan x \<le> (\<Sum>i<2 * n + 1. (- 1) ^ i * (1 / real (i * 2 + 1) * x ^ (i * 2 + 1)))"
proof -
  have ax: "\<bar>x\<bar> \<le> 1"
    using assms by simp
  have pos: "0 < 1 / real (0 * 2 + 1) * x ^ (0 * 2 + 1)"
    using assms by simp
  from summable_Leibniz(2)[OF zeroseq_arctan_series[OF ax] monoseq_arctan_series[OF ax]] pos
  have "\<forall>n. (\<Sum>i. (- 1) ^ i * (1 / real (i * 2 + 1) * x ^ (i * 2 + 1)))
      \<in> {\<Sum>i<2 * n. (- 1) ^ i * (1 / real (i * 2 + 1) * x ^ (i * 2 + 1)) ..
         \<Sum>i<2 * n + 1. (- 1) ^ i * (1 / real (i * 2 + 1) * x ^ (i * 2 + 1))}"
    by blast
  then show "(\<Sum>i<2 * n. (- 1) ^ i * (1 / real (i * 2 + 1) * x ^ (i * 2 + 1))) \<le> arctan x"
    and "arctan x \<le> (\<Sum>i<2 * n + 1. (- 1) ^ i * (1 / real (i * 2 + 1) * x ^ (i * 2 + 1)))"
    unfolding arctan_series[OF ax] by auto
qed

lemma np_pi_less_pi: "np_pi < pi"
proof -
  have lo: "(\<Sum>i<2 * 6. (- 1) ^ i * (1 / real (i * 2 + 1) * (1 / 5) ^ (i * 2 + 1)))
      \<le> arctan (1 / 5)"
    by (rule arctan_partial_sums(1)) simp_all
  have hi: "arctan (1 / 239)
      \<le> (\<Sum>i<2 * 1 + 1. (- 1) ^ i * (1 / real (i * 2 + 1) * (1 / 239) ^ (i * 2 + 1)))"
    by (rule arctan_partial_sums(2)) simp_all
  have "np_pi < 16 * (\<Sum>i<2 * 6. (- 1) ^ i * (1 / real (i * 2 + 1) * (1 / 5) ^ (i * 2 + 1)))
      - 4 * (\<Sum>i<2 * 1 + 1. (- 1) ^ i * (1 / real (i * 2 + 1) * (1 / 239) ^ (i * 2 + 1)))"
    by (simp add: np_pi_def lessThan_Suc eval_nat_numeral)
  also have "\<dots> \<le> 16 * arctan (1 / 5) - 4 * arctan (1 / 239)"
    using lo hi by linarith
  also have "\<dots> = pi"
    using machin by simp
  finally show ?thesis .
qed

lemma np_pi_pos [simp]: "0 < np_pi" "np_pi \<noteq> 0"
  by (simp_all add: np_pi_def)

lemma cos_latitude_pos:
  assumes "\<bar>x\<bar> \<le> 90"
  shows "0 < cos (np_pi * x / 180)"
proof -
  have "\<bar>np_pi * x / 180\<bar> = np_pi * \<bar>x\<bar> / 180"
    by (simp add: abs_mult abs_of_pos)
  also have "\<dots> \<le> np_pi * 90 / 180"
    using assms by simp
  also have "\<dots> < pi / 2"
    using np_pi_less_pi by simp
  finally have "\<bar>np_pi * x / 180\<bar> < pi / 2" .
  then show ?thesis
    by (intro cos_gt_zero_pi) (simp_all add: abs_less_iff)
qed

section \<open>The normalised dataset\<close>

lemma normalize_Inr:
  assumes "normalize raw = Inr d"
  shows "raw_level raw \<noteq> []"
    and "d = \<lparr>ds_time = raw_time raw,
              ds_z = map (\<lambda>q. Val (- H) * flog (Val q / Val (100 * last (raw_level raw))))
                       (map (\<lambda>l. 100 * l) (raw_level raw)),
              ds_latitude = map (\<lambda>x. np_pi * x / 180) (raw_latitude raw),
              ds_longitude = raw_longitude raw,
              ds_u = raw_u raw, ds_v = raw_v raw, ds_w = raw_w raw,
              ds_T = raw_T raw, ds_Phi = raw_Phi raw,
              ds_p = map (\<lambda>l. 100 * l) (raw_level raw),
              ds_rho = map (\<lambda>y. fexp (- y / Val H))
                         (map (\<lambda>q. Val (- H) * flog (Val q / Val (100 * last (raw_level raw))))
                            (map (\<lambda>l. 100 * l) (raw_level raw))),
              p_surf = 100 * last (raw_level raw)\<rparr>"
  using assms
  by (auto simp: normalize_def p_last_def Let_def last_map split: if_splits)

lemma normalize_ascending: "normalize ascending_raw = Inr ascending_ds"
  by (simp add: ascending_ds_def normalize_def ascending_raw_def p_last_def)

lemma normalize_cold: "normalize cold_raw = Inr cold_ds"
  by (simp add: cold_ds_def normalize_def cold_raw_def ascending_raw_def p_last_def)

lemma normalize_unstable: "normalize unstable_raw = Inr unstable_ds"
  by (simp add: unstable_ds_def normalize_def unstable_raw_def ascending_raw_def p_last_def)

lemma process_ascending:
  "process ascending_raw = Inr (assemble ascending_ds (w_logp ascending_ds))"
  by (simp add: process_def ascending_ds_def normalize_def ascending_raw_def p_last_def)

lemma sorted_last_Max:
  fixes xs :: "real list"
  assumes "sorted xs" and "xs \<noteq> []"
  shows "last xs = Max (set xs)"
proof -
  have "y \<le> last xs" if "y \<in> set xs" for y
  proof -
    from that obtain i where i: "i < length xs" "xs ! i = y"
      by (auto simp: in_set_conv_nth)
    then have "xs ! i \<le> xs ! (length xs - 1)"
      using assms(1) by (intro sorted_nth_mono) auto
    then show ?thesis
      using i assms(2) by (simp add: last_conv_nth)
  qed
  then show ?thesis
    using assms(2) by (intro Max_eqI[symmetric]) auto
qed

section \<open>Surface pressure\<close>

text \<open>
  C2, as the notebook has it. \<open>p_surf\<close> is the pressure at the last level in storage
  order, a fixed array position; it is the maximum pressure, the level nearest the surface,
  when the levels are stored in ascending order of pressure.
\<close>

theorem p_surf_is_last_level:
  assumes "normalize raw = Inr d"
  shows "p_surf d = last (ds_p d)
       \<and> (sorted (raw_level raw) \<longrightarrow> p_surf d = Max (set (ds_p d)))"
proof -
  note d = normalize_Inr[OF assms]
  have ne: "raw_level raw \<noteq> []"
    by (rule d(1))
  have p: "ds_p d = map (\<lambda>l. 100 * l) (raw_level raw)"
    and ps: "p_surf d = 100 * last (raw_level raw)"
    by (simp_all add: d(2))
  have 1: "p_surf d = last (ds_p d)"
    using ne by (simp add: p ps last_map)
  have 2: "p_surf d = Max (set (ds_p d))" if "sorted (raw_level raw)"
  proof -
    have "sorted (ds_p d)"
      unfolding p using that by (simp add: sorted_map sorted_wrt_iff_nth_less)
    moreover have "ds_p d \<noteq> []"
      using ne by (simp add: p)
    ultimately have "last (ds_p d) = Max (set (ds_p d))"
      by (rule sorted_last_Max)
    then show ?thesis
      using 1 by simp
  qed
  show ?thesis
    using 1 2 by blast
qed

theorem p_surf_is_last_level_witness:
  "p_surf ascending_ds = Max (set (ds_p ascending_ds)) \<and> p_surf ascending_ds = 100000"
  using p_surf_is_last_level[OF normalize_ascending]
  by (simp add: ascending_ds_def normalize_def ascending_raw_def p_last_def)

text \<open>
  With the levels stored in descending order of pressure the last level is the one
  farthest from the surface, and \<open>p_surf\<close> is not the maximum pressure.
\<close>

theorem p_surf_not_maximum_counterexample:
  "map_sum id p_surf (normalize descending_raw) = Inr 50000
   \<and> Max (set (map (\<lambda>l. 100 * l) (raw_level descending_raw))) = 100000"
  by (simp add: normalize_def descending_raw_def ascending_raw_def p_last_def)

section \<open>Missing input\<close>









section \<open>Zonal mean of the eddy part\<close>

lemma sum_list_Val: "sum_list (map (\<lambda>i. Val (g i)) xs) = Val (sum_list (map g xs))"
  by (induction xs) simp_all

lemma sum_list_minus_const:
  fixes g :: "nat \<Rightarrow> real"
  shows "sum_list (map (\<lambda>i. g i - c) xs) = sum_list (map g xs) - real (length xs) * c"
  by (induction xs) (simp_all add: algebra_simps)

lemma mean_lon_deviation:
  assumes "0 < n" and "\<forall>i<n. F i \<noteq> Undef"
  shows "mean_lon n (\<lambda>i. F i - mean_lon n F) = Val 0"
proof -
  define g where "g i = (case F i of Val x \<Rightarrow> x | Undef \<Rightarrow> 0)" for i
  have F: "F i = Val (g i)" if "i < n" for i
    using assms(2) that by (cases "F i") (auto simp: g_def)
  have mapF: "map F [0..<n] = map (\<lambda>i. Val (g i)) [0..<n]"
    by (rule map_cong) (auto simp: F)
  define S where "S = sum_list (map g [0..<n])"
  define m where "m = mean_lon n F"
  have mean: "m = Val (S / real n)"
    using assms(1) by (simp add: m_def mean_lon_def mapF sum_list_Val S_def)
  have dev: "map (\<lambda>i. F i - m) [0..<n] = map (\<lambda>i. Val (g i - S / real n)) [0..<n]"
    by (rule map_cong) (auto simp: F mean)
  have "mean_lon n (\<lambda>i. F i - m)
      = Val (sum_list (map (\<lambda>i. g i - S / real n) [0..<n])) / Val (real n)"
    by (simp only: mean_lon_def dev sum_list_Val)
  also have "\<dots> = Val 0"
    using assms(1) by (simp add: sum_list_minus_const S_def)
  finally show ?thesis
    by (simp only: m_def)
qed

text \<open>
  C8. For each field that the Eddy-Decomposition Module splits (\<open>u\<close>, \<open>v\<close>, the
  vertical velocity \<open>w\<close> it is given, and \<open>theta\<close>), with at least one longitude and finite
  values along the row, the zonal mean of the eddy part is zero at every (time, level,
  latitude). The arithmetic is that of the real numbers, so the zero is exact.
\<close>

theorem eddy_zonal_mean_zero:
  assumes "0 < nlon d"
  shows "((\<forall>i<nlon d. ds_u d t k j i \<noteq> Undef) \<longrightarrow> mean_lon (nlon d) (u_prime d t k j) = Val 0)
       \<and> ((\<forall>i<nlon d. ds_v d t k j i \<noteq> Undef) \<longrightarrow> mean_lon (nlon d) (v_prime d t k j) = Val 0)
       \<and> ((\<forall>i<nlon d. w t k j i \<noteq> Undef) \<longrightarrow> mean_lon (nlon d) (w_prime d w t k j) = Val 0)
       \<and> ((\<forall>i<nlon d. theta d t k j i \<noteq> Undef)
            \<longrightarrow> mean_lon (nlon d) (theta_prime d t k j) = Val 0)"
proof -
  have u: "u_prime d t k j = (\<lambda>i. ds_u d t k j i - mean_lon (nlon d) (ds_u d t k j))"
    by (intro ext) (simp add: u_prime_def u_bar_def)
  have v: "v_prime d t k j = (\<lambda>i. ds_v d t k j i - mean_lon (nlon d) (ds_v d t k j))"
    by (intro ext) (simp add: v_prime_def v_bar_def)
  have w: "w_prime d w t k j = (\<lambda>i. w t k j i - mean_lon (nlon d) (w t k j))"
    by (intro ext) (simp add: w_prime_def w_bar_def)
  have th: "theta_prime d t k j = (\<lambda>i. theta d t k j i - mean_lon (nlon d) (theta d t k j))"
    by (intro ext) (simp add: theta_prime_def theta_bar_def)
  show ?thesis
    unfolding u v w th using mean_lon_deviation[OF assms] by blast
qed

theorem eddy_zonal_mean_zero_witness:
  "mean_lon (nlon ascending_ds) (u_prime ascending_ds 0 0 0) = Val 0
   \<and> mean_lon (nlon ascending_ds) (v_prime ascending_ds 0 0 0) = Val 0
   \<and> mean_lon (nlon ascending_ds) (w_prime ascending_ds (ds_w ascending_ds) 0 0 0) = Val 0
   \<and> mean_lon (nlon ascending_ds) (theta_prime ascending_ds 0 0 0) = Val 0
   \<and> u_prime ascending_ds 0 0 0 1 = Val (1 / 2)"
proof -
  have n: "0 < nlon ascending_ds"
    by (simp add: nlon_def ascending_ds_def normalize_def ascending_raw_def p_last_def)
  have 1: "\<forall>i<nlon ascending_ds. ds_u ascending_ds 0 0 0 i \<noteq> Undef"
    by (simp add: nlon_def ascending_ds_def normalize_def ascending_raw_def p_last_def)
  have 2: "\<forall>i<nlon ascending_ds. ds_v ascending_ds 0 0 0 i \<noteq> Undef"
    by (simp add: nlon_def ascending_ds_def normalize_def ascending_raw_def p_last_def)
  have 3: "\<forall>i<nlon ascending_ds. ds_w ascending_ds 0 0 0 i \<noteq> Undef"
    by (simp add: nlon_def ascending_ds_def normalize_def ascending_raw_def p_last_def)
  have 4: "\<forall>i<nlon ascending_ds. theta ascending_ds 0 0 0 i \<noteq> Undef"
    by (simp add: theta_def nlon_def ascending_ds_def normalize_def ascending_raw_def
        p_last_def)
  have 5: "u_prime ascending_ds 0 0 0 1 = Val (1 / 2)"
    by (simp add: u_prime_def u_bar_def mean_lon_def nlon_def ascending_ds_def normalize_def
        ascending_raw_def p_last_def upt_rec)
  show ?thesis
    using eddy_zonal_mean_zero[OF n, of 0 0 0 "ds_w ascending_ds"] 1 2 3 4 5 by blast
qed

section \<open>Round trip of the coordinates\<close>

text \<open>
  C9. For positive pressure levels, the pressure coordinate of the output, computed from
  the log-pressure height by \<open>p_surf * exp (- z / H) / 100\<close>, is the level of the input
  again, and \<open>p_surf * exp (- z / H)\<close> is the pressure in Pa from which \<open>z\<close> was computed;
  the latitude of the output, \<open>180 * lat / np.pi\<close> of the latitude in radians, is the latitude
  of the input, each of the two scalings being applied once. The arithmetic is that of the
  real numbers, so the values are reproduced exactly.
\<close>

theorem coordinates_round_trip:
  assumes "normalize raw = Inr d" and "\<forall>l\<in>set (raw_level raw). 0 < l"
  shows "out_pressure (assemble d w) = map Val (raw_level raw)
       \<and> out_latitude (assemble d w) = raw_latitude raw
       \<and> map (\<lambda>y. Val (p_surf d) * fexp (- y / Val H)) (ds_z d) = map Val (ds_p d)"
proof -
  note d = normalize_Inr[OF assms(1)]
  define ps where "ps = 100 * last (raw_level raw)"
  have ps: "0 < ps"
    using d(1) assms(2) by (simp add: ps_def)
  have 1: "out_pressure (assemble d w) = map Val (raw_level raw)"
    using assms(2) ps
    by (subst d(2)) (simp add: assemble_def ps_def[symmetric] H_def)
  have 2: "out_latitude (assemble d w) = raw_latitude raw"
    by (subst d(2)) (simp add: assemble_def map_idI)
  have 3: "map (\<lambda>y. Val (p_surf d) * fexp (- y / Val H)) (ds_z d) = map Val (ds_p d)"
    using assms(2) ps
    by (subst (1 2 3) d(2)) (simp add: ps_def[symmetric] H_def)
  show ?thesis
    using 1 2 3 by simp
qed

theorem coordinates_round_trip_witness:
  "out_pressure (assemble ascending_ds (w_logp ascending_ds)) = [Val 500, Val 1000]
   \<and> out_latitude (assemble ascending_ds (w_logp ascending_ds)) = [0, 30]
   \<and> map (\<lambda>y. Val (p_surf ascending_ds) * fexp (- y / Val H)) (ds_z ascending_ds)
       = [Val 50000, Val 100000]"
proof -
  have h: "\<forall>l\<in>set (raw_level ascending_raw). 0 < l"
    by (simp add: ascending_raw_def)
  have p: "ds_p ascending_ds = [50000, 100000]"
    by (simp add: ascending_ds_def normalize_def ascending_raw_def p_last_def)
  show ?thesis
    using coordinates_round_trip[OF normalize_ascending h, of "w_logp ascending_ds"] p
    by (simp add: ascending_raw_def)
qed

section \<open>The vertical velocity of the output\<close>

text \<open>
  C10. The variable \<open>w\<close> of the output is the zonal mean of the vertical velocity as it
  was read from the files, not of the converted velocity \<open>w_logp\<close>; with any other field in
  the place of the converted velocity, the output differs in \<open>w_star\<close> and \<open>EPFD\<close> only.
\<close>

theorem output_w_is_native:
  assumes "process raw = Inr out"
  shows "out_w out = (\<lambda>t k j. mean_lon (length (raw_longitude raw)) (raw_w raw t k j))
       \<and> (\<exists>d. normalize raw = Inr d \<and> out = assemble d (w_logp d)
              \<and> (\<forall>w'. assemble d w' = out\<lparr>out_w_star := w_star d w', out_EPFD := EPFD d w'\<rparr>))"
proof -
  from assms obtain d where d: "normalize raw = Inr d" and out: "out = assemble d (w_logp d)"
    by (auto simp: process_def split: sum.splits if_splits)
  have "out_w out = (\<lambda>t k j. mean_lon (length (raw_longitude raw)) (raw_w raw t k j))"
    unfolding out by (subst (1 2) normalize_Inr(2)[OF d]) (simp add: assemble_def nlon_def)
  moreover have "assemble d w' = out\<lparr>out_w_star := w_star d w', out_EPFD := EPFD d w'\<rparr>" for w'
    unfolding out by (simp add: assemble_def)
  ultimately show ?thesis
    using d out by blast
qed

theorem output_w_is_native_witness:
  "out_w (assemble ascending_ds (w_logp ascending_ds))
     = (\<lambda>t k j. mean_lon (length (raw_longitude ascending_raw)) (raw_w ascending_raw t k j))
   \<and> out_w (assemble ascending_ds (w_logp ascending_ds)) 0 0 0 = Val (1 / 2)
   \<and> w_bar ascending_ds (w_logp ascending_ds) 0 0 0 = Val (340 * ln 2)"
proof -
  have 1: "out_w (assemble ascending_ds (w_logp ascending_ds)) 0 0 0 = Val (1 / 2)"
    by (simp add: assemble_def mean_lon_def nlon_def upt_rec
        ascending_ds_def normalize_def ascending_raw_def p_last_def)
  have 2: "w_bar ascending_ds (w_logp ascending_ds) 0 0 0 = Val (340 * ln 2)"
    by (simp add: w_bar_def w_logp_def dzdh_def h_geo_def gradient_def diffx_def H_def
        mean_lon_def nlon_def upt_rec ln_div
        ascending_ds_def normalize_def ascending_raw_def p_last_def)
  show ?thesis
    using output_w_is_native[OF process_ascending] 1 2 by simp
qed

section \<open>Vanishing heat flux\<close>

lemma diffx_Val:
  assumes "i + 1 < length ys"
  shows "diffx (map Val ys) i = Val (ys ! (i + 1) - ys ! i)"
  using assms by (simp add: diffx_def)

text \<open>On distinct finite labels the derivative of a field that is zero is zero.\<close>

lemma gradient_zero:
  assumes dist: "distinct ys" and len: "2 \<le> length ys" and k: "k < length ys"
    and f: "\<forall>i<length ys. f i = Val 0"
  shows "gradient (map Val ys) f k = Val 0"
proof -
  let ?n = "length ys"
  have nz: "ys ! (i + 1) - ys ! i \<noteq> 0" if "i + 1 < ?n" for i
    using that dist by (simp add: nth_eq_iff_index_eq)
  have fz: "f i = Val 0" if "i < ?n" for i
    using f that by blast
  have idx: "0 < ?n" "1 < ?n" "?n - 1 < ?n" "?n - 2 < ?n" "?n - 2 + 1 < ?n"
    using len by arith+
  have d0: "diffx (map Val ys) 0 = Val (ys ! 1 - ys ! 0)" and nz0: "ys ! 1 - ys ! 0 \<noteq> 0"
    using diffx_Val[of 0 ys] nz[of 0] idx by simp_all
  show ?thesis
  proof (cases "k = 0")
    case True
    have "f 1 = Val 0" "f 0 = Val 0"
      using fz idx by simp_all
    then show ?thesis
      using True d0 nz0 by (simp add: gradient_def)
  next
    case k0: False
    show ?thesis
    proof (cases "k = ?n - 1")
      case True
      have fs: "f (?n - 1) = Val 0" "f (?n - 2) = Val 0"
        using fz idx by simp_all
      from diffx_Val[OF idx(5)] nz[OF idx(5)]
      have "\<exists>x. x \<noteq> 0 \<and> diffx (map Val ys) (?n - 2) = Val x"
        by blast
      then obtain x where x: "x \<noteq> 0" "diffx (map Val ys) (?n - 2) = Val x"
        by blast
      show ?thesis
        using True k0 fs x d0 nz0 by (simp add: gradient_def)
    next
      case False
      then have kk: "k - 1 + 1 < ?n" "k + 1 < ?n" "k - 1 + 1 = k" "k - 1 < ?n"
        using k k0 by arith+
      have fs: "f (k - 1) = Val 0" "f k = Val 0" "f (k + 1) = Val 0"
        using fz kk k by simp_all
      show ?thesis
      proof (cases "uniform_spacing (map Val ys)")
        case True
        then show ?thesis
          using False k0 fs d0 nz0 by (simp add: gradient_def)
      next
        case nu: False
        define d1 where "d1 = ys ! k - ys ! (k - 1)"
        define d2 where "d2 = ys ! (k + 1) - ys ! k"
        have dx1: "diffx (map Val ys) (k - 1) = Val d1"
          using diffx_Val[OF kk(1)] kk(3) by (simp add: d1_def)
        have dx2: "diffx (map Val ys) k = Val d2"
          using diffx_Val[OF kk(2)] by (simp add: d2_def)
        have n1: "d1 \<noteq> 0"
          using nz[OF kk(1)] kk(3) by (simp add: d1_def)
        have n2: "d2 \<noteq> 0"
          using nz[OF kk(2)] by (simp add: d2_def)
        have "ys ! (k + 1) \<noteq> ys ! (k - 1)"
          using dist kk by (simp add: nth_eq_iff_index_eq)
        then have n3: "d1 + d2 \<noteq> 0"
          by (simp add: d1_def d2_def)
        show ?thesis
          using False k0 nu fs n1 n2 n3 dx1
          by (simp add: gradient_def dx2 Let_def)
      qed
    qed
  qed
qed

lemma z_heights:
  assumes "normalize raw = Inr d" and "\<forall>l\<in>set (raw_level raw). 0 < l"
  shows "ds_z d = map Val (map (\<lambda>l. - H * ln (l / last (raw_level raw))) (raw_level raw))"
proof -
  note d = normalize_Inr[OF assms(1)]
  have "0 < last (raw_level raw)"
    using d(1) assms(2) by simp
  then show ?thesis
    using assms(2) by (subst d(2)) simp
qed

lemma distinct_heights:
  assumes "distinct ls" and "\<forall>l\<in>set ls. 0 < l" and "0 < (s::real)"
  shows "distinct (map (\<lambda>l. - H * ln (l / s)) ls)"
proof -
  have "inj_on (\<lambda>l. - H * ln (l / s)) (set ls)"
  proof (rule inj_onI)
    fix a b
    assume a: "a \<in> set ls" and b: "b \<in> set ls" and eq: "- H * ln (a / s) = - H * ln (b / s)"
    have "0 < a / s" "0 < b / s"
      using a b assms(2,3) by simp_all
    moreover have "ln (a / s) = ln (b / s)"
      using eq by (simp add: H_def)
    ultimately have "a / s = b / s"
      by simp
    then show "a = b"
      using assms(3) by simp
  qed
  then show ?thesis
    using assms(1) by (simp add: distinct_map)
qed

lemma rho_positive:
  assumes "normalize raw = Inr d" and "\<forall>l\<in>set (raw_level raw). 0 < l"
    and "k < length (raw_level raw)"
  shows "\<exists>r. r \<noteq> 0 \<and> rho d k = Val r"
proof -
  have "ds_rho d = map (\<lambda>y. fexp (- y / Val H)) (ds_z d)"
    by (subst (1 2) normalize_Inr(2)[OF assms(1)]) simp
  then have "rho d k = Val (exp (- (- H * ln (raw_level raw ! k / last (raw_level raw))) / H))"
    using assms(3) by (simp add: rho_def z_heights[OF assms(1,2)] H_def)
  then show ?thesis
    by simp
qed

lemma heat_flux_ascending:
  "k < 2 \<Longrightarrow> heat_flux ascending_ds t k j = Val 0"
  by (auto simp add: less_2_cases_iff heat_flux_def v_prime_def theta_prime_def theta_bar_def
      theta_def v_bar_def mean_lon_def nlon_def upt_rec
      ascending_ds_def normalize_def ascending_raw_def p_last_def)

lemma N2_ascending:
  "k < 2 \<Longrightarrow> N2 ascending_ds t k j = Val (2 powr 0.286 / (6800 * ln 2))"
  by (auto simp add: less_2_cases_iff N2_def gradient_def diffx_def H_def theta_bar_def
      theta_def mean_lon_def nlon_def upt_rec uniform_spacing_def ln_div
      ascending_ds_def normalize_def ascending_raw_def p_last_def)

lemma heat_flux_cold:
  "k < 2 \<Longrightarrow> heat_flux cold_ds 0 k j = Val 0"
  by (auto simp add: less_2_cases_iff heat_flux_def v_prime_def theta_prime_def theta_bar_def
      theta_def v_bar_def mean_lon_def nlon_def upt_rec
      cold_ds_def normalize_def cold_raw_def ascending_raw_def p_last_def)

lemma N2_cold:
  "k < 2 \<Longrightarrow> N2 cold_ds 0 k j = Val 0"
  by (auto simp add: less_2_cases_iff N2_def gradient_def diffx_def H_def theta_bar_def
      theta_def mean_lon_def nlon_def upt_rec uniform_spacing_def
      cold_ds_def normalize_def cold_raw_def ascending_raw_def p_last_def)

lemma normalize_polar: "normalize polar_raw = Inr polar_ds"
  by (simp add: polar_ds_def normalize_def polar_raw_def ascending_raw_def p_last_def)

lemma heat_flux_polar:
  "k < 2 \<Longrightarrow> heat_flux polar_ds t k j = Val 0"
  by (auto simp add: less_2_cases_iff heat_flux_def v_prime_def theta_prime_def theta_bar_def
      theta_def v_bar_def mean_lon_def nlon_def upt_rec
      polar_ds_def polar_raw_def normalize_def ascending_raw_def p_last_def)

lemma N2_polar:
  "k < 2 \<Longrightarrow> N2 polar_ds t k j = Val (2 powr 0.286 / (6800 * ln 2))"
  by (auto simp add: less_2_cases_iff N2_def gradient_def diffx_def H_def theta_bar_def
      theta_def mean_lon_def nlon_def upt_rec uniform_spacing_def ln_div
      polar_ds_def polar_raw_def normalize_def ascending_raw_def p_last_def)

text \<open>
  C7, as the notebook has it. On a grid of at least two distinct positive pressure levels
  and at least two distinct latitudes between -90 and 90 degrees, if the eddy heat flux is
  zero everywhere and \<open>N\<^sup>2\<close> is defined and not zero everywhere, then \<open>v_star\<close> is the
  zonal mean of \<open>v\<close> and \<open>w_star\<close> is the zonal mean of \<open>w\<close> at every point of the grid,
  the poles included: the cosine of \<open>np_pi / 2\<close> is not zero.
\<close>

theorem zero_heat_flux_residual:
  assumes norm: "normalize raw = Inr d"
    and pos: "\<forall>l\<in>set (raw_level raw). 0 < l"
    and levels: "distinct (raw_level raw)" "2 \<le> length (raw_level raw)"
    and lats: "distinct (raw_latitude raw)" "2 \<le> length (raw_latitude raw)"
    and range: "\<forall>x\<in>set (raw_latitude raw). \<bar>x\<bar> \<le> 90"
    and flux: "\<forall>k<length (raw_level raw). \<forall>j<length (raw_latitude raw).
                 heat_flux d t k j = Val 0 \<and> N2 d t k j \<noteq> Val 0 \<and> N2 d t k j \<noteq> Undef"
    and k: "k < length (raw_level raw)" and j: "j < length (raw_latitude raw)"
  shows "v_star d t k j = v_bar d t k j \<and> w_star d w t k j = w_bar d w t k j"
proof -
  note d = normalize_Inr[OF norm]
  let ?zs = "map (\<lambda>l. - H * ln (l / last (raw_level raw))) (raw_level raw)"
  let ?phis = "map (\<lambda>x. np_pi * x / 180) (raw_latitude raw)"
  have z: "ds_z d = map Val ?zs"
    by (rule z_heights[OF norm pos])
  have last_pos: "0 < last (raw_level raw)"
    using d(1) pos by simp
  have dz: "distinct ?zs"
    by (rule distinct_heights[OF levels(1) pos last_pos])
  have phis: "ds_latitude d = ?phis"
    by (subst d(2)) simp
  have dphi: "distinct ?phis"
    using lats(1) by (simp add: distinct_map inj_on_def)
  have quot: "c * heat_flux d t k' j' / N2 d t k' j' = Val 0"
    if "k' < length (raw_level raw)" "j' < length (raw_latitude raw)" "c \<noteq> Undef" for c k' j'
  proof -
    from flux that obtain x where "heat_flux d t k' j' = Val 0" "N2 d t k' j' = Val x" "x \<noteq> 0"
      by (metis fval.exhaust)
    then show ?thesis
      using that(3) by (cases c) simp_all
  qed
  have "\<forall>k'<length ?zs. rho d k' * heat_flux d t k' j / N2 d t k' j = Val 0"
  proof (intro allI impI)
    fix k' assume "k' < length ?zs"
    then have k': "k' < length (raw_level raw)"
      by simp
    from rho_positive[OF norm pos k'] have "rho d k' \<noteq> Undef"
      by auto
    then show "rho d k' * heat_flux d t k' j / N2 d t k' j = Val 0"
      by (rule quot[OF k' j])
  qed
  then have gz: "gradient (ds_z d) (\<lambda>k'. rho d k' * heat_flux d t k' j / N2 d t k' j) k = Val 0"
    unfolding z using dz levels(2) k by (intro gradient_zero) simp_all
  from rho_positive[OF norm pos k] obtain r where r: "r \<noteq> 0" "rho d k = Val r"
    by blast
  have v: "v_star d t k j = v_bar d t k j"
    by (simp add: v_star_def gz r)
  have "\<forall>j'<length ?phis. cos_lat d j' * heat_flux d t k j' / N2 d t k j' = Val 0"
  proof (intro allI impI)
    fix j' assume "j' < length ?phis"
    then have j': "j' < length (raw_latitude raw)"
      by simp
    have "cos_lat d j' \<noteq> Undef"
      by (simp add: cos_lat_def)
    then show "cos_lat d j' * heat_flux d t k j' / N2 d t k j' = Val 0"
      by (rule quot[OF k j'])
  qed
  then have gl: "gradient (lat_coord d)
      (\<lambda>j'. cos_lat d j' * heat_flux d t k j' / N2 d t k j') j = Val 0"
    unfolding lat_coord_def phis using dphi lats(2) j by (intro gradient_zero) simp_all
  have "\<bar>raw_latitude raw ! j\<bar> \<le> 90"
    using range j by simp
  then have "cos (np_pi * (raw_latitude raw ! j) / 180) \<noteq> 0"
    using cos_latitude_pos[of "raw_latitude raw ! j"] by simp
  moreover have "cos_lat d j = Val (cos (np_pi * (raw_latitude raw ! j) / 180))"
    using j by (simp add: cos_lat_def phis)
  ultimately have w: "w_star d w t k j = w_bar d w t k j"
    by (simp add: w_star_def gl a_earth_def)
  show ?thesis
    using v w by simp
qed

theorem zero_heat_flux_residual_witness:
  "v_star polar_ds 0 0 0 = v_bar polar_ds 0 0 0
   \<and> w_star polar_ds (w_logp polar_ds) 0 0 0 = w_bar polar_ds (w_logp polar_ds) 0 0 0
   \<and> v_bar polar_ds 0 0 0 = Val 1
   \<and> w_bar polar_ds (w_logp polar_ds) 0 0 0 = Val (340 * ln 2)
   \<and> raw_latitude polar_raw ! 0 = 90"
proof -
  have pos: "\<forall>l\<in>set (raw_level polar_raw). 0 < l"
    and levels: "distinct (raw_level polar_raw)" "2 \<le> length (raw_level polar_raw)"
    and lats: "distinct (raw_latitude polar_raw)" "2 \<le> length (raw_latitude polar_raw)"
    and range: "\<forall>x\<in>set (raw_latitude polar_raw). \<bar>x\<bar> \<le> 90"
    and k: "0 < length (raw_level polar_raw)" and j: "0 < length (raw_latitude polar_raw)"
    and p: "raw_latitude polar_raw ! 0 = 90"
    by (simp_all add: polar_raw_def ascending_raw_def)
  have flux: "\<forall>k<length (raw_level polar_raw). \<forall>j<length (raw_latitude polar_raw).
      heat_flux polar_ds 0 k j = Val 0 \<and> N2 polar_ds 0 k j \<noteq> Val 0
      \<and> N2 polar_ds 0 k j \<noteq> Undef"
    by (simp add: polar_raw_def ascending_raw_def heat_flux_polar N2_polar)
  have vb: "v_bar polar_ds 0 0 0 = Val 1"
    by (simp add: v_bar_def mean_lon_def nlon_def upt_rec
        polar_ds_def polar_raw_def normalize_def ascending_raw_def p_last_def)
  have wb: "w_bar polar_ds (w_logp polar_ds) 0 0 0 = Val (340 * ln 2)"
    by (simp add: w_bar_def w_logp_def dzdh_def h_geo_def gradient_def diffx_def H_def
        mean_lon_def nlon_def upt_rec ln_div
        polar_ds_def polar_raw_def normalize_def ascending_raw_def p_last_def)
  show ?thesis
    using zero_heat_flux_residual[OF normalize_polar pos levels lats range flux k j,
        of "w_logp polar_ds"] vb wb p
    by simp
qed

text \<open>
  With temperature zero everywhere the potential temperature and \<open>N\<^sup>2\<close> are zero, the heat
  flux is zero at all four grid points, and the quotient of the two is \<open>0 / 0\<close>: \<open>v_star\<close>
  and \<open>w_star\<close> are undefined, while the zonal means are numbers.
\<close>

theorem zero_heat_flux_counterexample:
  "normalize cold_raw = Inr cold_ds
   \<and> heat_flux cold_ds 0 0 0 = Val 0 \<and> heat_flux cold_ds 0 0 1 = Val 0
   \<and> heat_flux cold_ds 0 1 0 = Val 0 \<and> heat_flux cold_ds 0 1 1 = Val 0
   \<and> N2 cold_ds 0 0 0 = Val 0
   \<and> v_star cold_ds 0 0 0 = Undef \<and> v_bar cold_ds 0 0 0 = Val 1
   \<and> w_star cold_ds (w_logp cold_ds) 0 0 0 = Undef
   \<and> w_bar cold_ds (w_logp cold_ds) 0 0 0 = Val (340 * ln 2)"
proof -
  note hf = heat_flux_cold and n2 = N2_cold
  have vb: "v_bar cold_ds 0 0 0 = Val 1"
    by (simp add: v_bar_def mean_lon_def nlon_def upt_rec
        cold_ds_def normalize_def cold_raw_def ascending_raw_def p_last_def)
  have vs: "v_star cold_ds 0 0 0 = Undef"
    by (simp add: v_star_def gradient_def hf n2)
  have ws: "w_star cold_ds (w_logp cold_ds) 0 0 0 = Undef"
    by (simp add: w_star_def gradient_def hf n2)
  have wb: "w_bar cold_ds (w_logp cold_ds) 0 0 0 = Val (340 * ln 2)"
    by (simp add: w_bar_def w_logp_def dzdh_def h_geo_def gradient_def diffx_def H_def
        mean_lon_def nlon_def upt_rec ln_div
        cold_ds_def normalize_def cold_raw_def ascending_raw_def p_last_def)
  show ?thesis
    using normalize_cold hf[of 0 0] hf[of 0 1] hf[of 1 0] hf[of 1 1] n2[of 0 0] vb vs ws wb
    by simp
qed

section \<open>Division by the stability\<close>

lemma gradient_Undef:
  assumes "uses_centre xs k" and "f k = Undef"
  shows "gradient xs f k = Undef"
  using assms by (auto simp: uses_centre_def gradient_def Let_def)

lemma process_fails_iff:
  "isl (process raw) \<longleftrightarrow> length (raw_level raw) < 2 \<or> length (raw_latitude raw) < 2"
  by (auto simp: process_def normalize_def p_last_def Let_def split: sum.splits)

lemmas unstable_defs = unstable_ds_def normalize_def unstable_raw_def ascending_raw_def
  p_last_def mean_lon_def nlon_def upt_rec H_def gradient_def diffx_def uniform_spacing_def

lemmas field_defs = v_star_def w_star_def F_lat_def F_z_def EPFD_def rho_def cos_lat_def
  lat_coord_def a_earth_def Omega_def f_cor_def offset_def u_bar_def u_prime_def uv_bar_def
  uw_bar_def w_bar_def w_prime_def w_logp_def dzdh_def h_geo_def heat_flux_def v_prime_def
  theta_prime_def theta_bar_def theta_def v_bar_def N2_def

lemma gradient_Undef_next:
  assumes "\<not> uses_centre xs k" and "k < length xs" and "f k = Undef"
  shows "gradient xs f (k + 1) = Undef"
proof -
  from assms(1) have k: "k \<noteq> 0" "k \<noteq> length xs - 1" and u: "uniform_spacing xs"
    by (auto simp: uses_centre_def)
  show ?thesis
  proof (cases "k + 1 = length xs - 1")
    case True
    then have "length xs - 2 = k" "\<not> length xs \<le> Suc 0"
      using k assms(2) by arith+
    then show ?thesis
      using True assms(3) by (simp add: gradient_def Let_def)
  next
    case False
    then show ?thesis
      using assms(3) u by (simp add: gradient_def Let_def)
  qed
qed

text \<open>
  An undefined element of a field makes its derivative undefined at that position or at
  the next one.
\<close>

lemma gradient_Undef_near:
  assumes "k < length xs" and "f k = Undef"
  shows "gradient xs f k = Undef \<or> gradient xs f (k + 1) = Undef"
  using gradient_Undef[of xs k f] gradient_Undef_next[of xs k f] assms by blast

text \<open>
  C6, as the notebook has it. Where \<open>N\<^sup>2\<close> is zero the quotient of the heat flux and
  \<open>N\<^sup>2\<close> is undefined (NaN or an infinity), and nothing clamps, replaces or hides it:
  \<open>F_lat\<close> and \<open>F_z\<close> are undefined at that point, and each of \<open>v_star\<close>, \<open>w_star\<close>
  and \<open>EPFD\<close> of the output is undefined at that point or at the next point along the axis
  of its derivative. Whether the pipeline fails depends on the size of the grid alone, not
  on any value.
\<close>

theorem zero_stability_propagates:
  assumes "N2 d t k j = Val 0" and "k < length (ds_z d)" and "j < length (ds_latitude d)"
  shows "heat_flux d t k j / N2 d t k j = Undef
       \<and> F_lat d t k j = Undef \<and> F_z d w t k j = Undef
       \<and> (out_v_star (assemble d w) t k j = Undef
            \<or> out_v_star (assemble d w) t (k + 1) j = Undef)
       \<and> (out_w_star (assemble d w) t k j = Undef
            \<or> out_w_star (assemble d w) t k (j + 1) = Undef)
       \<and> (out_EPFD (assemble d w) t k j = Undef
            \<or> out_EPFD (assemble d w) t (k + 1) j = Undef)
       \<and> (isl (process raw) \<longleftrightarrow> length (raw_level raw) < 2 \<or> length (raw_latitude raw) < 2)"
proof -
  have q: "c * heat_flux d t k j / N2 d t k j = Undef" for c
    by (simp add: assms(1))
  have flat: "F_lat d t k j = Undef"
    by (simp add: F_lat_def q)
  have fz: "F_z d w t k j = Undef"
    by (simp add: F_z_def q)
  have j: "j < length (lat_coord d)"
    using assms(3) by (simp add: lat_coord_def)
  have v: "v_star d t k j = Undef \<or> v_star d t (k + 1) j = Undef"
    using gradient_Undef_near[OF assms(2), of "\<lambda>k'. rho d k' * heat_flux d t k' j / N2 d t k' j"] q
    by (auto simp: v_star_def)
  have ws: "w_star d w t k j = Undef \<or> w_star d w t k (j + 1) = Undef"
    using gradient_Undef_near[OF j, of "\<lambda>j'. cos_lat d j' * heat_flux d t k j' / N2 d t k j'"] q
    by (auto simp: w_star_def)
  have e: "EPFD d w t k j = Undef \<or> EPFD d w t (k + 1) j = Undef"
    using gradient_Undef_near[OF assms(2), of "\<lambda>k'. F_z d w t k' j"] fz
    by (auto simp: EPFD_def)
  have out: "out_v_star (assemble d w) = v_star d" "out_w_star (assemble d w) = w_star d w"
    "out_EPFD (assemble d w) = EPFD d w"
    by (simp_all add: assemble_def)
  show ?thesis
    unfolding out using assms(1) flat fz v ws e process_fails_iff by simp
qed

theorem zero_stability_propagates_witness:
  "heat_flux cold_ds 0 0 0 / N2 cold_ds 0 0 0 = Undef
   \<and> F_lat cold_ds 0 0 0 = Undef \<and> F_z cold_ds (w_logp cold_ds) 0 0 0 = Undef
   \<and> (out_v_star (assemble cold_ds (w_logp cold_ds)) 0 0 0 = Undef
        \<or> out_v_star (assemble cold_ds (w_logp cold_ds)) 0 1 0 = Undef)
   \<and> (out_w_star (assemble cold_ds (w_logp cold_ds)) 0 0 0 = Undef
        \<or> out_w_star (assemble cold_ds (w_logp cold_ds)) 0 0 1 = Undef)
   \<and> (out_EPFD (assemble cold_ds (w_logp cold_ds)) 0 0 0 = Undef
        \<or> out_EPFD (assemble cold_ds (w_logp cold_ds)) 0 1 0 = Undef)
   \<and> isl (process cold_raw) = False"
proof -
  have n2: "N2 cold_ds 0 0 0 = Val 0"
    by (simp add: N2_cold)
  have k: "0 < length (ds_z cold_ds)" and j: "0 < length (ds_latitude cold_ds)"
    by (simp_all add: cold_ds_def normalize_def cold_raw_def ascending_raw_def p_last_def)
  have g: "\<not> (length (raw_level cold_raw) < 2 \<or> length (raw_latitude cold_raw) < 2)"
    by (simp add: cold_raw_def ascending_raw_def)
  show ?thesis
    using zero_stability_propagates[OF n2 k j, of "w_logp cold_ds" cold_raw] g by simp
qed

text \<open>
  Where \<open>N\<^sup>2\<close> is negative the division is an ordinary one: in \<open>unstable_raw\<close> the
  stability is negative at both levels, the heat flux at the lower level is not zero, and
  all the fields are numbers.
\<close>

theorem negative_stability_counterexample:
  "normalize unstable_raw = Inr unstable_ds
   \<and> N2 unstable_ds 0 0 0 = Val (- (3 / (13600 * ln 2)))
   \<and> N2 unstable_ds 0 1 0 = Val (- (3 / (13600 * ln 2)))
   \<and> heat_flux unstable_ds 0 1 0 = Val (1 / 4)
   \<and> v_star unstable_ds 0 1 0 = Val (1 / 3)
   \<and> F_lat unstable_ds 0 1 0 = Val (- (1 / 4))
   \<and> w_star unstable_ds (w_logp unstable_ds) 0 1 0 \<noteq> Undef
   \<and> F_z unstable_ds (w_logp unstable_ds) 0 1 0 \<noteq> Undef
   \<and> EPFD unstable_ds (w_logp unstable_ds) 0 1 0 \<noteq> Undef"
proof -
  have 1: "N2 unstable_ds 0 k 0 = Val (- (3 / (13600 * ln 2)))" if "k < 2" for k
    using that by (auto simp add: less_2_cases_iff field_defs unstable_defs ln_div)
  have 2: "heat_flux unstable_ds 0 1 0 = Val (1 / 4)"
    by (simp add: field_defs unstable_defs)
  have 3: "v_star unstable_ds 0 1 0 = Val (1 / 3)"
    by (simp add: field_defs unstable_defs ln_div)
  have 4: "F_lat unstable_ds 0 1 0 = Val (- (1 / 4))"
    by (simp add: field_defs unstable_defs ln_div)
  have 5: "w_star unstable_ds (w_logp unstable_ds) 0 1 0 \<noteq> Undef"
    by (simp add: field_defs unstable_defs ln_div)
  have 6: "F_z unstable_ds (w_logp unstable_ds) 0 1 0 \<noteq> Undef"
    by (simp add: field_defs unstable_defs ln_div)
  have 7: "EPFD unstable_ds (w_logp unstable_ds) 0 1 0 \<noteq> Undef"
    by (simp add: field_defs unstable_defs ln_div)
  show ?thesis
    using normalize_unstable 1[of 0] 1[of 1] 2 3 4 5 6 7 by simp
qed

section \<open>Agreement of the fields with the formulas\<close>

text \<open>
  On finite elements the array operations are the operations on the numbers they hold: the
  mean over longitude is the zonal mean, the mean of a product of two eddy parts is the
  eddy covariance, and on distinct coordinate labels \<open>gradient\<close> is the finite-difference
  derivative, whichever of its two formulas it takes inside the axis.
\<close>

lemma val_Val: "x \<noteq> Undef \<Longrightarrow> x = Val (val x)"
  by (cases x) simp_all

lemma mean_lon_Val:
  assumes "0 < n" and "\<And>i. i < n \<Longrightarrow> F i = Val (g i)"
  shows "mean_lon n F = Val (zonal_mean n g)"
proof -
  have m: "map F [0..<n] = map (\<lambda>i. Val (g i)) [0..<n]"
    by (rule map_cong) (auto simp: assms(2))
  show ?thesis
    unfolding mean_lon_def zonal_mean_def m sum_list_Val using assms(1) by simp
qed

lemma eddy_cov_Val:
  assumes n: "0 < n" and F: "\<And>i. i < n \<Longrightarrow> F i = Val (f i)"
    and G: "\<And>i. i < n \<Longrightarrow> G i = Val (g i)"
  shows "mean_lon n (\<lambda>i. (F i - mean_lon n F) * (G i - mean_lon n G)) = Val (eddy_cov n f g)"
proof -
  have mF: "mean_lon n F = Val (zonal_mean n f)"
    by (rule mean_lon_Val[OF n F])
  have mG: "mean_lon n G = Val (zonal_mean n g)"
    by (rule mean_lon_Val[OF n G])
  show ?thesis
    unfolding eddy_cov_def mF mG
    by (rule mean_lon_Val[OF n]) (simp add: F G)
qed

lemma uniform_spacing_Val:
  assumes "uniform_spacing (map Val ys)" and "i + 1 < length ys"
  shows "ys ! (i + 1) - ys ! i = ys ! 1 - ys ! 0"
proof -
  have "i \<in> set [0..<length (map Val ys) - 1]"
    using assms(2) by simp
  with assms(1) have "feq (diffx (map Val ys) i) (diffx (map Val ys) 0)"
    unfolding uniform_spacing_def list_all_iff by blast
  moreover have "0 + 1 < length ys"
    using assms(2) by simp
  ultimately show ?thesis
    using diffx_Val[OF assms(2)] diffx_Val[of 0 ys] by simp
qed

lemma three_point_weights:
  fixes a b s p q r :: real
  assumes "a \<noteq> 0" and "b \<noteq> 0" and "s \<noteq> 0" and s: "s = a + b"
  shows "- b / (a * s) * p + (b - a) / (a * b) * q + a / (b * s) * r
       = (a * a * r - b * b * p + (b * b - a * a) * q) / (a * b * s)"
proof -
  have "- b / (a * s) * p + (b - a) / (a * b) * q + a / (b * s) * r
      = (a * a * r - b * b * p + ((b - a) * s) * q) / (a * b * s)"
    using assms(1-3) by (simp add: field_simps)
  also have "(b - a) * s = b * b - a * a"
    by (simp add: s algebra_simps)
  finally show ?thesis .
qed

lemma gradient_Val:
  assumes dist: "distinct ys" and len: "2 \<le> length ys" and k: "k < length ys"
    and f: "\<And>i. i < length ys \<Longrightarrow> f i = Val (g i)"
  shows "gradient (map Val ys) f k = Val (fd_derivative ys g k)"
proof -
  let ?n = "length ys"
  have nz: "ys ! (i + 1) - ys ! i \<noteq> 0" if "i + 1 < ?n" for i
    using that dist by (simp add: nth_eq_iff_index_eq)
  have idx: "0 < ?n" "1 < ?n" "?n - 1 < ?n" "?n - 2 < ?n" "?n - 2 + 1 < ?n"
    "?n - 2 + 1 = ?n - 1"
    using len by arith+
  have d0: "diffx (map Val ys) 0 = Val (ys ! 1 - ys ! 0)" and nz0: "ys ! 1 - ys ! 0 \<noteq> 0"
    using diffx_Val[of 0 ys] nz[of 0] idx by simp_all
  show ?thesis
  proof (cases "k = 0")
    case True
    have "f 1 = Val (g 1)" "f 0 = Val (g 0)"
      using f idx by simp_all
    then show ?thesis
      using True d0 nz0 by (simp add: gradient_def fd_derivative_def)
  next
    case k0: False
    show ?thesis
    proof (cases "k = ?n - 1")
      case True
      have fs: "f (?n - 1) = Val (g (?n - 1))" "f (?n - 2) = Val (g (?n - 2))"
        using f idx by simp_all
      have x: "ys ! (?n - 1) - ys ! (?n - 2) \<noteq> 0"
        "diffx (map Val ys) (?n - 2) = Val (ys ! (?n - 1) - ys ! (?n - 2))"
        using diffx_Val[OF idx(5)] nz[OF idx(5)] idx(6) by simp_all
      have u: "ys ! 1 - ys ! 0 = ys ! (?n - 1) - ys ! (?n - 2)" if "uniform_spacing (map Val ys)"
        using uniform_spacing_Val[OF that idx(5)] idx(6) by simp
      show ?thesis
        using True k0 fs x d0 nz0 u
        by (cases "uniform_spacing (map Val ys)")
           (simp_all add: gradient_def fd_derivative_def Let_def)
    next
      case False
      then have kk: "k - 1 + 1 < ?n" "k + 1 < ?n" "k - 1 + 1 = k" "k - 1 < ?n"
        using k k0 by arith+
      have fs: "f (k - 1) = Val (g (k - 1))" "f k = Val (g k)" "f (k + 1) = Val (g (k + 1))"
        using f kk k by simp_all
      define d1 where "d1 = ys ! k - ys ! (k - 1)"
      define d2 where "d2 = ys ! (k + 1) - ys ! k"
      have dx1: "diffx (map Val ys) (k - 1) = Val d1"
        using diffx_Val[OF kk(1)] kk(3) by (simp add: d1_def)
      have dx2: "diffx (map Val ys) k = Val d2"
        using diffx_Val[OF kk(2)] by (simp add: d2_def)
      have n1: "d1 \<noteq> 0"
        using nz[OF kk(1)] kk(3) by (simp add: d1_def)
      have n2: "d2 \<noteq> 0"
        using nz[OF kk(2)] by (simp add: d2_def)
      have "ys ! (k + 1) \<noteq> ys ! (k - 1)"
        using dist kk by (simp add: nth_eq_iff_index_eq)
      then have n3: "d1 + d2 \<noteq> 0"
        by (simp add: d1_def d2_def)
      have fd: "fd_derivative ys g k
          = (d1 * d1 * g (k + 1) - d2 * d2 * g (k - 1) + (d2 * d2 - d1 * d1) * g k)
              / (d1 * d2 * (d1 + d2))"
        using False k0 by (simp add: fd_derivative_def Let_def d1_def d2_def)
      show ?thesis
      proof (cases "uniform_spacing (map Val ys)")
        case True
        have e1: "d1 = ys ! 1 - ys ! 0"
          using uniform_spacing_Val[OF True kk(1)] kk(3) by (simp add: d1_def)
        have e2: "d2 = ys ! 1 - ys ! 0"
          using uniform_spacing_Val[OF True kk(2)] by (simp add: d2_def)
        have d0': "diffx (map Val ys) 0 = Val d1"
          using d0 e1 by simp
        have "gradient (map Val ys) f k = Val ((g (k + 1) - g (k - 1)) / (2 * d1))"
          using False k0 True fs n1 by (simp add: gradient_def d0')
        also have "(g (k + 1) - g (k - 1)) / (2 * d1)
            = (d1 * d1 * g (k + 1) - d1 * d1 * g (k - 1) + (d1 * d1 - d1 * d1) * g k)
                / (d1 * d1 * (d1 + d1))"
          using n1 by (simp add: field_simps)
        finally show ?thesis
          unfolding fd using e1 e2 by simp
      next
        case nu: False
        have "gradient (map Val ys) f k
            = Val (- d2 / (d1 * (d1 + d2)) * g (k - 1) + (d2 - d1) / (d1 * d2) * g k
                   + d1 / (d2 * (d1 + d2)) * g (k + 1))"
          using False k0 nu fs n1 n2 n3 dx1
          by (simp add: gradient_def dx2 Let_def)
        also have "- d2 / (d1 * (d1 + d2)) * g (k - 1) + (d2 - d1) / (d1 * d2) * g k
                   + d1 / (d2 * (d1 + d2)) * g (k + 1)
            = (d1 * d1 * g (k + 1) - d2 * d2 * g (k - 1) + (d2 * d2 - d1 * d1) * g k)
                / (d1 * d2 * (d1 + d2))"
          by (rule three_point_weights[OF n1 n2 n3 refl])
        finally show ?thesis
          unfolding fd .
      qed
    qed
  qed
qed

text \<open>On evenly spaced points the derivative inside the axis is the centred difference.\<close>

lemma fd_derivative_even:
  assumes "k \<noteq> 0" and "k \<noteq> length xs - 1"
    and "xs ! k - xs ! (k - 1) = h" and "xs ! (k + 1) - xs ! k = h" and "h \<noteq> 0"
  shows "fd_derivative xs f k = (f (k + 1) - f (k - 1)) / (2 * h)"
  using assms by (simp add: fd_derivative_def Let_def field_simps)


text \<open>
  What a regular input gives: the heights are distinct numbers, the latitudes are distinct,
  the cosine of every latitude is positive, the density is \<open>exp (- z / 6800)\<close>, and every
  element of the five fields is a number. From there each field of the notebook is followed
  to the formula of the specification.
\<close>

lemma regular_grid:
  assumes r: "regular raw d t"
  shows "ds_z d = map Val (heights d)" and "distinct (heights d)"
    and "2 \<le> length (heights d)" and "length (heights d) = nlev d"
    and "distinct (ds_latitude d)" and "2 \<le> length (ds_latitude d)"
    and "length (ds_latitude d) = nlat d" and "0 < nlon d" and "0 < p_surf d"
proof -
  from r have norm: "normalize raw = Inr d" and pos: "\<forall>l\<in>set (raw_level raw). 0 < l"
    and lev: "distinct (raw_level raw)" "2 \<le> length (raw_level raw)"
    and lat: "distinct (raw_latitude raw)" "2 \<le> length (raw_latitude raw)"
    and lon: "raw_longitude raw \<noteq> []"
    by (simp_all add: regular_def)
  note d = normalize_Inr[OF norm]
  have last_pos: "0 < last (raw_level raw)"
    using d(1) pos by simp
  have z: "ds_z d = map Val (map (\<lambda>l. - H * ln (l / last (raw_level raw))) (raw_level raw))"
    by (rule z_heights[OF norm pos])
  then have h: "heights d = map (\<lambda>l. - H * ln (l / last (raw_level raw))) (raw_level raw)"
    by (simp add: heights_def comp_def)
  show "ds_z d = map Val (heights d)"
    unfolding h by (rule z)
  show "distinct (heights d)"
    unfolding h by (rule distinct_heights[OF lev(1) pos last_pos])
  show "2 \<le> length (heights d)"
    using lev(2) by (simp add: h)
  show "length (heights d) = nlev d"
    by (simp add: heights_def nlev_def)
  have phis: "ds_latitude d = map (\<lambda>x. np_pi * x / 180) (raw_latitude raw)"
    by (subst d(2)) simp
  show "distinct (ds_latitude d)"
    using lat(1) by (simp add: phis distinct_map inj_on_def)
  show "2 \<le> length (ds_latitude d)"
    using lat(2) by (simp add: phis)
  show "length (ds_latitude d) = nlat d"
    by (simp add: nlat_def)
  have "ds_longitude d = raw_longitude raw"
    by (subst d(2)) simp
  then show "0 < nlon d"
    using lon by (simp add: nlon_def)
  have "p_surf d = 100 * last (raw_level raw)"
    by (subst d(2)) simp
  then show "0 < p_surf d"
    using last_pos by simp
qed

lemma regular_level:
  assumes r: "regular raw d t" and k: "k < nlev d"
  shows "rho d k = Val (spec_rho d k)" and "0 < spec_rho d k" and "0 < ds_p d ! k"
proof -
  from r have norm: "normalize raw = Inr d" and pos: "\<forall>l\<in>set (raw_level raw). 0 < l"
    by (simp_all add: regular_def)
  note d = normalize_Inr[OF norm]
  have rho: "ds_rho d = map (\<lambda>y. fexp (- y / Val H)) (ds_z d)"
    by (subst (1 2) d(2)) simp
  have k': "k < length (heights d)"
    using k by (simp add: regular_grid(4)[OF r])
  show "rho d k = Val (spec_rho d k)"
    using k k' unfolding rho_def rho spec_rho_def nlev_def
    by (simp add: regular_grid(1)[OF r] H_def)
  show "0 < spec_rho d k"
    by (simp add: spec_rho_def)
  have p: "ds_p d = map (\<lambda>l. 100 * l) (raw_level raw)"
    by (subst d(2)) simp
  have "length (ds_z d) = length (raw_level raw)"
    by (subst d(2)) simp
  then have "k < length (raw_level raw)"
    using k by (simp add: nlev_def)
  then show "0 < ds_p d ! k"
    using pos by (simp add: p)
qed

lemma regular_latitude:
  assumes r: "regular raw d t" and j: "j < nlat d"
  shows "0 < cos (ds_latitude d ! j)"
proof -
  from r have norm: "normalize raw = Inr d" and rng: "\<forall>x\<in>set (raw_latitude raw). \<bar>x\<bar> \<le> 90"
    by (simp_all add: regular_def)
  have phis: "ds_latitude d = map (\<lambda>x. np_pi * x / 180) (raw_latitude raw)"
    by (subst normalize_Inr(2)[OF norm]) simp
  have j': "j < length (raw_latitude raw)"
    using j by (simp add: nlat_def phis)
  then have "\<bar>raw_latitude raw ! j\<bar> \<le> 90"
    using rng by simp
  then show ?thesis
    using j' by (simp add: phis cos_latitude_pos)
qed

lemma regular_point:
  assumes r: "regular raw d t" and "k < nlev d" and "j < nlat d" and "i < nlon d"
  shows "ds_u d t k j i = Val (val (ds_u d t k j i))"
    and "ds_v d t k j i = Val (val (ds_v d t k j i))"
    and "ds_w d t k j i = Val (val (ds_w d t k j i))"
    and "ds_T d t k j i = Val (val (ds_T d t k j i))"
    and "ds_Phi d t k j i = Val (val (ds_Phi d t k j i))"
  using assms by (simp_all add: regular_def val_Val)

lemma regular_N2:
  assumes r: "regular raw d t" and "k < nlev d" and "j < nlat d"
  shows "spec_N2 d t k j \<noteq> 0"
  using assms by (simp add: regular_def)

lemma theta_Val:
  assumes r: "regular raw d t" and k: "k < nlev d" and j: "j < nlat d" and i: "i < nlon d"
  shows "theta d t k j i = Val (spec_theta d t k j i)"
proof -
  have p: "0 < ds_p d ! k" and ps: "0 < p_surf d"
    using regular_level(3)[OF r k] regular_grid(9)[OF r] by simp_all
  then have "0 \<le> p_surf d / ds_p d ! k" "ds_p d ! k \<noteq> 0"
    by simp_all
  then show ?thesis
    unfolding theta_def spec_theta_def
    by (subst regular_point(4)[OF r k j i]) simp
qed

lemma theta_bar_Val:
  assumes r: "regular raw d t" and k: "k < nlev d" and j: "j < nlat d"
  shows "theta_bar d t k j = Val (zonal_mean (nlon d) (spec_theta d t k j))"
  unfolding theta_bar_def
  by (rule mean_lon_Val[OF regular_grid(8)[OF r]]) (rule theta_Val[OF r k j])

lemma N2_Val:
  assumes r: "regular raw d t" and k: "k < nlev d" and j: "j < nlat d"
  shows "N2 d t k j = Val (spec_N2 d t k j)"
  unfolding N2_def spec_N2_def regular_grid(1)[OF r]
  using k
  by (intro gradient_Val regular_grid(2,3)[OF r])
     (simp_all add: regular_grid(4)[OF r] theta_bar_Val[OF r _ j])

lemma v_bar_Val:
  assumes r: "regular raw d t" and k: "k < nlev d" and j: "j < nlat d"
  shows "v_bar d t k j = Val (zonal_mean (nlon d) (\<lambda>i. val (ds_v d t k j i)))"
  unfolding v_bar_def
  by (rule mean_lon_Val[OF regular_grid(8)[OF r]]) (rule regular_point(2)[OF r k j])

lemma u_bar_Val:
  assumes r: "regular raw d t" and k: "k < nlev d" and j: "j < nlat d"
  shows "u_bar d t k j = Val (spec_u_bar d t k j)"
  unfolding u_bar_def spec_u_bar_def
  by (rule mean_lon_Val[OF regular_grid(8)[OF r]]) (rule regular_point(1)[OF r k j])

lemma heat_flux_Val:
  assumes r: "regular raw d t" and k: "k < nlev d" and j: "j < nlat d"
  shows "heat_flux d t k j = Val (spec_heat_flux d t k j)"
  unfolding heat_flux_def v_prime_def theta_prime_def v_bar_def theta_bar_def spec_heat_flux_def
  by (rule eddy_cov_Val[OF regular_grid(8)[OF r]])
     (auto intro: regular_point(2)[OF r k j] theta_Val[OF r k j])

lemma uv_bar_Val:
  assumes r: "regular raw d t" and k: "k < nlev d" and j: "j < nlat d"
  shows "uv_bar d t k j = Val (spec_uv d t k j)"
  unfolding uv_bar_def u_prime_def v_prime_def u_bar_def v_bar_def spec_uv_def
  by (rule eddy_cov_Val[OF regular_grid(8)[OF r]])
     (auto intro: regular_point(1,2)[OF r k j])

lemma quotient_Val:
  assumes r: "regular raw d t" and k: "k < nlev d" and j: "j < nlat d"
  shows "Val c * heat_flux d t k j / N2 d t k j
       = Val (c * (spec_heat_flux d t k j / spec_N2 d t k j))"
  using regular_N2[OF r k j] by (simp add: heat_flux_Val[OF r k j] N2_Val[OF r k j])

lemma v_star_Val:
  assumes r: "regular raw d t" and k: "k < nlev d" and j: "j < nlat d"
  shows "v_star d t k j = Val (spec_v_star d t k j)"
proof -
  have "gradient (map Val (heights d)) (\<lambda>k'. rho d k' * heat_flux d t k' j / N2 d t k' j) k
      = Val (fd_derivative (heights d)
               (\<lambda>k'. spec_rho d k' * (spec_heat_flux d t k' j / spec_N2 d t k' j)) k)"
    using k
    by (intro gradient_Val regular_grid(2,3)[OF r])
       (simp_all add: regular_grid(4)[OF r] regular_level(1)[OF r] quotient_Val[OF r _ j])
  then show ?thesis
    using regular_level(2)[OF r k]
    by (simp add: v_star_def spec_v_star_def regular_grid(1)[OF r] v_bar_Val[OF r k j]
        regular_level(1)[OF r k])
qed

lemma h_geo_Val:
  assumes r: "regular raw d t" and k: "k < nlev d" and j: "j < nlat d" and i: "i < nlon d"
  shows "h_geo d t k j i = Val (spec_h d t k j i)"
  unfolding h_geo_def spec_h_def
  by (subst regular_point(5)[OF r k j i]) simp

lemma w_logp_Val:
  assumes r: "regular raw d t" and c: "convertible d t"
    and k: "k < nlev d" and j: "j < nlat d" and i: "i < nlon d"
  shows "w_logp d t k j i = Val (spec_w d t k j i)"
proof -
  have "gradient (map Val (heights d)) (\<lambda>k'. h_geo d t k' j i) k
      = Val (fd_derivative (heights d) (\<lambda>k'. spec_h d t k' j i) k)"
    using k
    by (intro gradient_Val regular_grid(2,3)[OF r])
       (simp_all add: regular_grid(4)[OF r] h_geo_Val[OF r _ j i])
  moreover have "fd_derivative (heights d) (\<lambda>k'. spec_h d t k' j i) k \<noteq> 0"
    using c k j i by (simp add: convertible_def)
  moreover obtain x where "ds_w d t k j i = Val x"
    using regular_point(3)[OF r k j i] by blast
  ultimately show ?thesis
    by (simp add: w_logp_def dzdh_def spec_w_def regular_grid(1)[OF r])
qed

lemma w_bar_Val:
  assumes r: "regular raw d t" and c: "convertible d t" and k: "k < nlev d" and j: "j < nlat d"
  shows "w_bar d (w_logp d) t k j = Val (zonal_mean (nlon d) (spec_w d t k j))"
  unfolding w_bar_def
  by (rule mean_lon_Val[OF regular_grid(8)[OF r]]) (rule w_logp_Val[OF r c k j])

lemma uw_bar_Val:
  assumes r: "regular raw d t" and c: "convertible d t" and k: "k < nlev d" and j: "j < nlat d"
  shows "uw_bar d (w_logp d) t k j = Val (spec_uw d t k j)"
  unfolding uw_bar_def u_prime_def w_prime_def u_bar_def w_bar_def spec_uw_def
  by (rule eddy_cov_Val[OF regular_grid(8)[OF r]])
     (auto intro: regular_point(1)[OF r k j] w_logp_Val[OF r c k j])

lemma w_star_Val:
  assumes r: "regular raw d t" and c: "convertible d t" and k: "k < nlev d" and j: "j < nlat d"
  shows "w_star d (w_logp d) t k j = Val (spec_w_star d t k j)"
proof -
  have "gradient (map Val (ds_latitude d))
          (\<lambda>j'. cos_lat d j' * heat_flux d t k j' / N2 d t k j') j
      = Val (fd_derivative (ds_latitude d)
               (\<lambda>j'. cos (ds_latitude d ! j') * (spec_heat_flux d t k j' / spec_N2 d t k j')) j)"
    using j
    by (intro gradient_Val regular_grid(5,6)[OF r])
       (simp_all add: regular_grid(7)[OF r] cos_lat_def quotient_Val[OF r k])
  then show ?thesis
    using regular_latitude[OF r j]
    by (simp add: w_star_def spec_w_star_def lat_coord_def cos_lat_def a_earth_def
        w_bar_Val[OF r c k j])
qed

lemma F_lat_Val:
  assumes r: "regular raw d t" and k: "k < nlev d" and j: "j < nlat d"
  shows "F_lat d t k j = Val (spec_F_lat d t k j)"
proof -
  define g where "g = fd_derivative (heights d) (\<lambda>k'. spec_u_bar d t k' j) k"
  have "gradient (map Val (heights d)) (\<lambda>k'. u_bar d t k' j) k = Val g"
    unfolding g_def using k
    by (intro gradient_Val regular_grid(2,3)[OF r])
       (simp_all add: regular_grid(4)[OF r] u_bar_Val[OF r _ j])
  then have "F_lat d t k j
      = Val ((g * (spec_heat_flux d t k j / spec_N2 d t k j) - spec_uv d t k j)
             * spec_rho d k * cos (ds_latitude d ! j))"
    by (simp add: F_lat_def regular_grid(1)[OF r] quotient_Val[OF r k j]
        uv_bar_Val[OF r k j] regular_level(1)[OF r k] cos_lat_def)
  also have "\<dots> = Val (spec_F_lat d t k j)"
    by (simp add: spec_F_lat_def g_def)
  finally show ?thesis .
qed

lemma offset_Val:
  assumes r: "regular raw d t" and k: "k < nlev d" and j: "j < nlat d"
  shows "offset d t k j
       = Val (fd_derivative (ds_latitude d)
                (\<lambda>j'. spec_u_bar d t k j' * cos (ds_latitude d ! j')) j
                / (6370000 * cos (ds_latitude d ! j)))"
proof -
  have "gradient (map Val (ds_latitude d)) (\<lambda>j'. u_bar d t k j' * cos_lat d j') j
      = Val (fd_derivative (ds_latitude d)
               (\<lambda>j'. spec_u_bar d t k j' * cos (ds_latitude d ! j')) j)"
    using j
    by (intro gradient_Val regular_grid(5,6)[OF r])
       (simp_all add: regular_grid(7)[OF r] cos_lat_def u_bar_Val[OF r k])
  then show ?thesis
    using regular_latitude[OF r j]
    by (simp add: offset_def lat_coord_def cos_lat_def a_earth_def)
qed

lemma F_z_Val:
  assumes r: "regular raw d t" and c: "convertible d t" and k: "k < nlev d" and j: "j < nlat d"
  shows "F_z d (w_logp d) t k j = Val (spec_F_z d t k j)"
proof -
  define g where "g = 2 * (7292 / 100000000) * sin (ds_latitude d ! j)
      - fd_derivative (ds_latitude d)
          (\<lambda>j'. spec_u_bar d t k j' * cos (ds_latitude d ! j')) j
          / (6370000 * cos (ds_latitude d ! j))"
  have "f_cor d j - offset d t k j = Val g"
    by (simp add: offset_Val[OF r k j] f_cor_def Omega_def g_def)
  then have "F_z d (w_logp d) t k j
      = Val ((g * (spec_heat_flux d t k j / spec_N2 d t k j) - spec_uw d t k j)
             * spec_rho d k * 6370000 * cos (ds_latitude d ! j))"
    by (simp add: F_z_def quotient_Val[OF r k j] uw_bar_Val[OF r c k j]
        regular_level(1)[OF r k] cos_lat_def a_earth_def)
  also have "\<dots> = Val (spec_F_z d t k j)"
    by (simp add: spec_F_z_def g_def)
  finally show ?thesis .
qed

lemma EPFD_Val:
  assumes r: "regular raw d t" and c: "convertible d t" and k: "k < nlev d" and j: "j < nlat d"
  shows "EPFD d (w_logp d) t k j = Val (spec_EPFD d t k j)"
proof -
  have 1: "gradient (map Val (ds_latitude d)) (\<lambda>j'. F_lat d t k j') j
      = Val (fd_derivative (ds_latitude d) (\<lambda>j'. spec_F_lat d t k j') j)"
    using j
    by (intro gradient_Val regular_grid(5,6)[OF r])
       (simp_all add: regular_grid(7)[OF r] F_lat_Val[OF r k])
  have 2: "gradient (map Val (heights d)) (\<lambda>k'. F_z d (w_logp d) t k' j) k
      = Val (fd_derivative (heights d) (\<lambda>k'. spec_F_z d t k' j) k)"
    using k
    by (intro gradient_Val regular_grid(2,3)[OF r])
       (simp_all add: regular_grid(4)[OF r] F_z_Val[OF r c _ j])
  show ?thesis
    using regular_latitude[OF r j] regular_level(2)[OF r k]
    by (simp add: EPFD_def spec_EPFD_def lat_coord_def regular_grid(1)[OF r] 1 2
        regular_level(1)[OF r k] cos_lat_def a_earth_def)
qed

section \<open>The formulas on an example\<close>

text \<open>
  \<open>unstable_raw\<close> is a regular input on which the vertical velocity can be converted; the
  heat flux at its lower level is not zero. The formulas of the specification are evaluated
  there at time 0, level 1 and latitude 0.
\<close>

lemmas spec_defs = spec_v_star_def spec_w_star_def spec_F_lat_def spec_F_z_def spec_EPFD_def
  spec_rho_def spec_heat_flux_def spec_N2_def spec_theta_def spec_u_bar_def spec_uv_def
  spec_uw_def spec_w_def spec_h_def heights_def fd_derivative_def zonal_mean_def eddy_cov_def

lemma unstable_grid: "nlev unstable_ds = 2" "nlat unstable_ds = 2" "nlon unstable_ds = 2"
  by (simp_all add: nlev_def nlat_def unstable_defs)

lemma spec_N2_unstable:
  "k < 2 \<Longrightarrow> spec_N2 unstable_ds 0 k j = - (3 / (13600 * ln 2))"
  by (auto simp add: less_2_cases_iff spec_defs unstable_defs ln_div)

lemma regular_unstable: "regular unstable_raw unstable_ds 0"
  unfolding regular_def unstable_grid
  by (simp add: normalize_unstable spec_N2_unstable)
     (simp add: unstable_defs less_2_cases_iff)

lemma convertible_unstable: "convertible unstable_ds 0"
  unfolding convertible_def unstable_grid
  by (auto simp add: less_2_cases_iff spec_defs unstable_defs ln_div)

lemma spec_v_star_unstable: "spec_v_star unstable_ds 0 1 0 = 1 / 3"
  by (simp add: spec_defs unstable_defs ln_div)

lemma spec_w_star_unstable:
  "spec_w_star unstable_ds 0 1 0
     = 340 * ln 2 + 3400 * ln 2 / 3 * (1 - cos (np_pi / 6)) * 6 / (6370000 * np_pi)"
  by (simp add: spec_defs unstable_defs ln_div) (simp add: field_simps)

lemma spec_F_lat_unstable: "spec_F_lat unstable_ds 0 1 0 = - (1 / 4)"
  by (simp add: spec_defs unstable_defs ln_div)

lemma spec_F_z_unstable:
  "spec_F_z unstable_ds 0 1 0
     = 3400 * ln 2 * (cos (np_pi / 6) - 1) / np_pi - 170 * ln 2 * 6370000"
  by (simp add: spec_defs unstable_defs ln_div) (simp add: field_simps)

lemma spec_EPFD_unstable:
  "spec_EPFD unstable_ds 0 1 0 = 1 / 80 + 2 * (1 - cos (np_pi / 6)) / (np_pi * 6370000)"
  by (simp add: spec_defs unstable_defs ln_div exp_minus) (simp add: field_simps)


section \<open>Residual circulation\<close>

text \<open>
  C1. On a regular input the notebook's \<open>v_star\<close> is, at every (time, level, latitude),
  the number that the formula of the specification gives from the input fields: the zonal
  mean of \<open>v\<close> minus \<open>1/\<rho>\<close> times the vertical derivative of \<open>\<rho> (v'\<theta>' / N\<^sup>2)\<close>. Where
  the vertical velocity can be converted, \<open>w_star\<close> computed from the converted velocity
  is the zonal mean of that velocity plus \<open>1/(a cos \<phi>)\<close> times the derivative in latitude
  of \<open>cos \<phi> (v'\<theta>' / N\<^sup>2)\<close>, with \<open>a = 6.37e6\<close>. There \<open>\<rho>\<close> at a level is
  \<open>exp (- z / 6800)\<close>, \<open>N\<^sup>2\<close> is the vertical derivative of the zonal mean of the potential
  temperature, and the latitude is the input latitude in radians, \<open>np_pi / 180\<close> times the
  degrees.
\<close>

theorem residual_circulation_formulas:
  assumes "regular raw d t" and "k < nlev d" and "j < nlat d"
  shows "v_star d t k j = Val (spec_v_star d t k j)
       \<and> (convertible d t \<longrightarrow> w_star d (w_logp d) t k j = Val (spec_w_star d t k j))
       \<and> rho d k = Val (exp (- (heights d ! k) / 6800))
       \<and> N2 d t k j
           = Val (fd_derivative (heights d)
                    (\<lambda>k'. zonal_mean (nlon d) (spec_theta d t k' j)) k)
       \<and> ds_latitude d = map (\<lambda>deg. np_pi * deg / 180) (raw_latitude raw)"
proof -
  have norm: "normalize raw = Inr d"
    using assms(1) by (simp add: regular_def)
  have "ds_latitude d = map (\<lambda>deg. np_pi * deg / 180) (raw_latitude raw)"
    by (subst normalize_Inr(2)[OF norm]) simp
  moreover have "rho d k = Val (exp (- (heights d ! k) / 6800))"
    using regular_level(1)[OF assms(1,2)] by (simp add: spec_rho_def)
  moreover have "N2 d t k j
      = Val (fd_derivative (heights d) (\<lambda>k'. zonal_mean (nlon d) (spec_theta d t k' j)) k)"
    using N2_Val[OF assms] by (simp add: spec_N2_def)
  ultimately show ?thesis
    using v_star_Val[OF assms] w_star_Val[OF assms(1) _ assms(2,3)] by blast
qed

theorem residual_circulation_formulas_witness:
  "v_star unstable_ds 0 1 0 = Val (1 / 3)
   \<and> w_star unstable_ds (w_logp unstable_ds) 0 1 0
       = Val (340 * ln 2 + 3400 * ln 2 / 3 * (1 - cos (np_pi / 6)) * 6 / (6370000 * np_pi))
   \<and> rho unstable_ds 1 = Val 1
   \<and> N2 unstable_ds 0 1 0 = Val (- (3 / (13600 * ln 2)))
   \<and> ds_latitude unstable_ds = [0, np_pi * 30 / 180]"
proof -
  have k: "1 < nlev unstable_ds" and j: "0 < nlat unstable_ds"
    by (simp_all add: unstable_grid)
  have h: "heights unstable_ds ! 1 = 0"
    by (simp add: heights_def unstable_defs)
  have n: "fd_derivative (heights unstable_ds)
      (\<lambda>k'. zonal_mean (nlon unstable_ds) (spec_theta unstable_ds 0 k' 0)) 1
      = - (3 / (13600 * ln 2))"
    using spec_N2_unstable[of 1 0] by (simp add: spec_N2_def)
  have l: "raw_latitude unstable_raw = [0, 30]"
    by (simp add: unstable_raw_def ascending_raw_def)
  show ?thesis
    using residual_circulation_formulas[OF regular_unstable k j] convertible_unstable
    unfolding spec_v_star_unstable spec_w_star_unstable h n l
    by simp
qed

section \<open>Wave flux\<close>

text \<open>
  C3. On a regular input the notebook's \<open>F_lat\<close> is, at every (time, level, latitude),
  the number that the formula of the specification gives from the input fields:
  \<open>F_lat = \<rho> cos \<phi> (u_z (v'\<theta>' / N\<^sup>2) - u'v')\<close>, without the radius of the Earth. Where
  the vertical velocity can be converted, \<open>F_z\<close> and \<open>EPFD\<close> computed from the converted
  velocity are
  \<open>F_z = \<rho> a cos \<phi> ((f - (u cos \<phi>)_\<phi> / (a cos \<phi>)) (v'\<theta>' / N\<^sup>2) - u'w')\<close> with
  \<open>f = 2 \<Omega> sin \<phi>\<close> and \<open>\<Omega> = 7.292e-5\<close>, and
  \<open>EPFD = (d F_lat / d\<phi> + d F_z / dz) / (\<rho> a cos \<phi>)\<close>.
\<close>

theorem wave_flux_formulas:
  assumes "regular raw d t" and "k < nlev d" and "j < nlat d"
  shows "F_lat d t k j = Val (spec_F_lat d t k j)
       \<and> (convertible d t \<longrightarrow>
            F_z d (w_logp d) t k j = Val (spec_F_z d t k j)
            \<and> EPFD d (w_logp d) t k j = Val (spec_EPFD d t k j))"
  using F_lat_Val[OF assms] F_z_Val[OF assms(1) _ assms(2,3)] EPFD_Val[OF assms(1) _ assms(2,3)]
  by blast

theorem wave_flux_formulas_witness:
  "F_lat unstable_ds 0 1 0 = Val (- (1 / 4))
   \<and> F_z unstable_ds (w_logp unstable_ds) 0 1 0
       = Val (3400 * ln 2 * (cos (np_pi / 6) - 1) / np_pi - 170 * ln 2 * 6370000)
   \<and> EPFD unstable_ds (w_logp unstable_ds) 0 1 0
       = Val (1 / 80 + 2 * (1 - cos (np_pi / 6)) / (np_pi * 6370000))"
proof -
  have k: "1 < nlev unstable_ds" and j: "0 < nlat unstable_ds"
    by (simp_all add: unstable_grid)
  show ?thesis
    using wave_flux_formulas[OF regular_unstable k j] convertible_unstable
    unfolding spec_F_lat_unstable spec_F_z_unstable spec_EPFD_unstable
    by simp
qed

end
